theory Spec2Isabelle
  imports Main "HOL-Library.Sublist"
begin

chapter \<open>The embedding\<close>

section \<open>Exception hierarchy\<close>

text \<open>
  \<^verbatim>\<open>HttpStatus\<close> is a table of constants; only the entries the exception classes use are
  embedded. A status code is a JavaScript number: \<open>None\<close> stands for \<^verbatim>\<open>undefined\<close>,
  which TypeScript's types forbid but the \<^verbatim>\<open>||\<close> of the constructor caters for.
\<close>

definition INTERNAL_SERVER_ERROR :: int where "INTERNAL_SERVER_ERROR = 500"
definition BAD_REQUEST :: int where "BAD_REQUEST = 400"
definition UNAUTHORIZED :: int where "UNAUTHORIZED = 401"
definition FORBIDDEN :: int where "FORBIDDEN = 403"
definition NOT_FOUND :: int where "NOT_FOUND = 404"
definition METHOD_NOT_ALLOWED :: int where "METHOD_NOT_ALLOWED = 405"
definition BAD_REQUEST_MESSAGE :: string where "BAD_REQUEST_MESSAGE = ''Bad Request''"
definition UNAUTHORIZED_MESSAGE_TEXT :: string where "UNAUTHORIZED_MESSAGE_TEXT = ''Unauthorized''"
definition FORBIDDEN_MESSAGE_TEXT :: string where "FORBIDDEN_MESSAGE_TEXT = ''Forbidden''"
definition NOT_FOUND_MESSAGE :: string where "NOT_FOUND_MESSAGE = ''Not Found''"
definition METHOD_NOT_ALLOWED_MESSAGE :: string where
  "METHOD_NOT_ALLOWED_MESSAGE = ''Method Not Allowed''"

record HttpException =
  exn_name :: string
  exn_message :: string
  exn_status :: int

text \<open>
  \<^verbatim>\<open>status || HttpStatus.INTERNAL_SERVER_ERROR\<close>: of the status codes, which are integers, the
  falsy ones are \<^verbatim>\<open>undefined\<close> and 0.
\<close>

definition falsy_status :: "int option \<Rightarrow> bool" where
  "falsy_status s = (case s of None \<Rightarrow> True | Some n \<Rightarrow> n = 0)"

definition new_HttpException :: "string \<Rightarrow> string \<Rightarrow> int option \<Rightarrow> HttpException" where
  "new_HttpException cname message status =
     \<lparr>exn_name = cname, exn_message = message,
      exn_status = (case status of None \<Rightarrow> INTERNAL_SERVER_ERROR
                    | Some n \<Rightarrow> if n = 0 then INTERNAL_SERVER_ERROR else n)\<rparr>"

text \<open>A default parameter applies when the argument is \<^verbatim>\<open>undefined\<close> (\<open>None\<close>).\<close>

definition default_arg :: "'a \<Rightarrow> 'a option \<Rightarrow> 'a" where
  "default_arg d a = (case a of None \<Rightarrow> d | Some x \<Rightarrow> x)"

definition ForbiddenException :: "string option \<Rightarrow> HttpException" where
  "ForbiddenException message =
     new_HttpException ''ForbiddenException'' (default_arg FORBIDDEN_MESSAGE_TEXT message) (Some FORBIDDEN)"

definition BadRequestException :: "string option \<Rightarrow> HttpException" where
  "BadRequestException message =
     new_HttpException ''BadRequestException'' (default_arg BAD_REQUEST_MESSAGE message) (Some BAD_REQUEST)"

definition UnauthorizedException :: "string option \<Rightarrow> HttpException" where
  "UnauthorizedException message =
     new_HttpException ''UnauthorizedException'' (default_arg UNAUTHORIZED_MESSAGE_TEXT message)
       (Some UNAUTHORIZED)"

definition NotFoundException :: "string option \<Rightarrow> HttpException" where
  "NotFoundException message =
     new_HttpException ''NotFoundException'' (default_arg NOT_FOUND_MESSAGE message) (Some NOT_FOUND)"

definition MethodNotAllowedException :: "string option \<Rightarrow> HttpException" where
  "MethodNotAllowedException message =
     new_HttpException ''MethodNotAllowedException'' (default_arg METHOD_NOT_ALLOWED_MESSAGE message)
       (Some METHOD_NOT_ALLOWED)"

section \<open>Values, request contexts and argument arrays\<close>

text \<open>
  The values that flow through the core are opaque to it; a small universe of JavaScript
  values is enough to tell them apart.
\<close>

datatype jsval = Undefined | JBool bool | JNum int | JStr string | JObj "(string \<times> jsval) list"

type_synonym TSchema = string

record JwtPayload =
  id_jwt :: "string option"
  email :: "string option"
  role :: "string option"
  iat :: "int option"
  exp :: "int option"

text \<open>
  The request context, with the fields the two source files read or write: \<^verbatim>\<open>c.body\<close>,
  \<^verbatim>\<open>c.query\<close>, \<^verbatim>\<open>c.params\<close> (which may be missing: \<^verbatim>\<open>c.params?.[slug]\<close>),
  \<^verbatim>\<open>c.request.headers.get("Authorization")\<close>, the optional property \<^verbatim>\<open>c.jwt\<close> with its
  \<^verbatim>\<open>verify\<close>, \<^verbatim>\<open>c.set.status\<close> and \<^verbatim>\<open>c.store.user\<close>. A verifier is handed the second
  piece of the split header (\<^verbatim>\<open>undefined\<close> when there is none) and either rejects (\<open>Inl\<close>),
  or resolves to a falsy value (\<open>Inr None\<close>) or to a payload.
\<close>

record Context =
  body :: jsval
  query :: jsval
  params :: "(string \<rightharpoonup> jsval) option"
  authorization :: "string option"
  jwt :: "(string option \<Rightarrow> jsval + JwtPayload option) option"
  set_status :: "int option"
  store_user :: "JwtPayload option"

text \<open>An argument handed to a handler: the raw context itself, or a value.\<close>

datatype arg = RawCtx Context | Val jsval

text \<open>
  A JavaScript array built by index assignment: \<open>None\<close> is a hole. Writing past the end
  extends the array with holes; reading a hole or past the end gives nothing.
\<close>

definition arr_set :: "'a option list \<Rightarrow> nat \<Rightarrow> 'a \<Rightarrow> 'a option list" where
  "arr_set xs i v =
     (if i < length xs then xs[i := Some v]
      else xs @ replicate (i - length xs) None @ [Some v])"

definition arr_get :: "'a option list \<Rightarrow> nat \<Rightarrow> 'a option" where
  "arr_get xs i = (if i < length xs then xs ! i else None)"

text \<open>The spread \<^verbatim>\<open>...parameters\<close> of a call reads every hole as \<^verbatim>\<open>undefined\<close>.\<close>

definition spread :: "arg option list \<Rightarrow> arg list" where
  "spread ps = map (\<lambda>p. case p of None \<Rightarrow> Val Undefined | Some a \<Rightarrow> a) ps"

definition startsWith_slash :: "string \<Rightarrow> bool" where
  "startsWith_slash s = (case s of [] \<Rightarrow> False | c # _ \<Rightarrow> c = CHR ''/'')"

section \<open>Route metadata\<close>

record OpenApiDetailMetadata =
  summary :: string
  description :: string
  detail_tags :: "string list option"

type_synonym OpenApiResponseMetadata = "(nat \<times> TSchema) list"

record OpenApiMetadata =
  openapi_detail :: OpenApiDetailMetadata
  openapi_response :: OpenApiResponseMetadata

text \<open>
  A custom parameter decorator records its extractor and the parameter index. The extractor
  is application code: it may throw or reject (\<open>Inl\<close>) instead of giving a value.
\<close>

record CustomDecorator =
  cd_handler :: "Context \<Rightarrow> jsval + jsval"
  cd_index :: nat

text \<open>
  An instance is made by \<^verbatim>\<open>new target(...services)\<close>: the class it was made from and the
  instances it was given.
\<close>

datatype Instance = New nat "Instance list"

text \<open>
  A streaming handler returns a generator: a sequence of produced values that ends normally,
  ends by raising, or does not end.
\<close>

codatatype gen = Done | Yield jsval gen | Throw jsval

text \<open>
  A handler is a method of the controller class. It has an identity (metadata is attached to
  the function object) and a body, which is an ordinary (possibly async) function or a
  generator function; \<^verbatim>\<open>isGenerator\<close> tells them apart by the constructor's name.
\<close>

datatype HandlerImpl =
  PlainFn "Instance \<Rightarrow> arg list \<Rightarrow> jsval + jsval"
| GeneratorFn "Instance \<Rightarrow> arg list \<Rightarrow> gen"

record Handler =
  hid :: nat
  impl :: HandlerImpl

text \<open>The record \<^verbatim>\<open>Metadata\<close> of one route; its field \<^verbatim>\<open>method\<close> is \<open>httpMethod\<close> here.\<close>

record Metadata =
  path :: string
  httpMethod :: string
  handler :: Handler
  bodySchema :: "(TSchema option \<times> nat) option"
  querySchema :: "(TSchema option \<times> nat) option"
  paramSlug :: "(string \<times> nat) option"
  rawContext :: "nat option"
  isPublic :: bool
  detailSchema :: "OpenApiDetailMetadata option"
  responseSchema :: "OpenApiResponseMetadata option"
  customDecorators :: "CustomDecorator list"

section \<open>Parameter extraction and handler wrapping\<close>

text \<open>The loop over the custom decorators: each extractor is awaited before the next runs.\<close>

fun run_customDecorators ::
  "CustomDecorator list \<Rightarrow> Context \<Rightarrow> arg option list \<Rightarrow> jsval + arg option list" where
  "run_customDecorators [] c parameters = Inr parameters"
| "run_customDecorators (d # ds) c parameters =
     (case cd_handler d c of
        Inl e \<Rightarrow> Inl e
      | Inr v \<Rightarrow> run_customDecorators ds c (arr_set parameters (cd_index d) (Val v)))"

definition lookup_param :: "Context \<Rightarrow> string \<Rightarrow> jsval" where
  "lookup_param c slug =
     (case params c of None \<Rightarrow> Undefined
      | Some ps \<Rightarrow> (case ps slug of None \<Rightarrow> Undefined | Some v \<Rightarrow> v))"

definition getParameters :: "Metadata \<Rightarrow> Context \<Rightarrow> jsval + arg option list" where
  "getParameters eachMetadata c =
     (let p0 = [];
          p1 = (case rawContext eachMetadata of None \<Rightarrow> p0
                | Some i \<Rightarrow> arr_set p0 i (RawCtx c));
          p2 = (case bodySchema eachMetadata of None \<Rightarrow> p1
                | Some (_, i) \<Rightarrow> arr_set p1 i (Val (body c)));
          p3 = (case querySchema eachMetadata of None \<Rightarrow> p2
                | Some (_, i) \<Rightarrow> arr_set p2 i (Val (query c)));
          p4 = (case paramSlug eachMetadata of None \<Rightarrow> p3
                | Some (slug, i) \<Rightarrow> arr_set p3 i (Val (lookup_param c slug)))
      in run_customDecorators (customDecorators eachMetadata) c p4)"

text \<open>
  The body of the wrapping generator: every produced value is yielded again, and a value
  thrown by the iteration is caught and yielded as one more value, after which the wrapper
  returns.
\<close>

primcorec forward :: "gen \<Rightarrow> gen" where
  "forward g =
     (case g of Done \<Rightarrow> Done | Yield v g' \<Rightarrow> Yield v (forward g') | Throw e \<Rightarrow> Yield e Done)"

datatype WrappedHandler =
  WrappedPlain "Context \<Rightarrow> jsval + jsval"
| WrappedGenerator "Context \<Rightarrow> gen"

definition isGenerator :: "Handler \<Rightarrow> bool" where
  "isGenerator h = (case impl h of GeneratorFn _ \<Rightarrow> True | PlainFn _ \<Rightarrow> False)"

text \<open>
  \<^verbatim>\<open>getHandler\<close>. In the streaming case the \<^verbatim>\<open>await getParameters(c)\<close> stands inside the
  \<^verbatim>\<open>try\<close>, so an extractor that throws is caught as well.
\<close>

definition getHandler :: "Metadata \<Rightarrow> Instance \<Rightarrow> WrappedHandler" where
  "getHandler eachMetadata controller =
     (case impl (handler eachMetadata) of
        GeneratorFn f \<Rightarrow>
          WrappedGenerator (\<lambda>c. case getParameters eachMetadata c of
                                   Inl e \<Rightarrow> Yield e Done
                                 | Inr ps \<Rightarrow> forward (f controller (spread ps)))
      | PlainFn f \<Rightarrow>
          WrappedPlain (\<lambda>c. case getParameters eachMetadata c of
                               Inl e \<Rightarrow> Inl e
                             | Inr ps \<Rightarrow> f controller (spread ps)))"

text \<open>What a caller sees when it pulls at most \<open>n\<close> units from a generator.\<close>

datatype ending = Finished | Raised jsval | Pending

fun consume :: "nat \<Rightarrow> gen \<Rightarrow> jsval list \<times> ending" where
  "consume 0 g = ([], (case g of Done \<Rightarrow> Finished | Throw e \<Rightarrow> Raised e | Yield _ _ \<Rightarrow> Pending))"
| "consume (Suc n) g =
     (case g of
        Done \<Rightarrow> ([], Finished)
      | Throw e \<Rightarrow> ([], Raised e)
      | Yield v g' \<Rightarrow> (case consume n g' of (vs, e) \<Rightarrow> (v # vs, e)))"

text \<open>The generator that produces the given values in order and then goes on as \<open>g\<close>.\<close>

fun produces :: "jsval list \<Rightarrow> gen \<Rightarrow> gen" where
  "produces [] g = g"
| "produces (v # vs) g = Yield v (produces vs g)"

section \<open>The authentication hook\<close>

text \<open>
  A hook is a request-handling function: it may change the context (\<^verbatim>\<open>c.set.status\<close>,
  \<^verbatim>\<open>c.store.user\<close>), and it either throws (\<open>Inl\<close>) or returns a value (\<open>Inr\<close>, with
  \<open>Undefined\<close> when it returns nothing).
\<close>

type_synonym Hook = "Context \<Rightarrow> Context \<times> (jsval + jsval)"

definition UNAUTHORIZED_MESSAGE :: jsval where
  "UNAUTHORIZED_MESSAGE = JObj [(''message'', JStr ''Unauthorized''), (''success'', JBool False)]"

definition FORBIDDEN_MESSAGE :: jsval where
  "FORBIDDEN_MESSAGE = JObj [(''message'', JStr ''Forbidden''), (''success'', JBool False)]"

text \<open>
  \<^verbatim>\<open>token.split("Bearer ")\<close>: the pieces of the header between the occurrences of the
  separator, scanned from the left; \<open>cur\<close> holds the piece being read, reversed.
\<close>

fun split_Bearer :: "string \<Rightarrow> string \<Rightarrow> string list" where
  "split_Bearer cur [] = [rev cur]"
| "split_Bearer cur (c # cs) =
     (if prefix ''Bearer '' (c # cs) then rev cur # split_Bearer [] (drop 6 cs)
      else split_Bearer (c # cur) cs)"

text \<open>\<^verbatim>\<open>token.split("Bearer ")[1]\<close>, which is \<^verbatim>\<open>undefined\<close> when the split has one piece.\<close>

definition bearer_part :: "string \<Rightarrow> string option" where
  "bearer_part token = (case split_Bearer [] token of _ # t # _ \<Rightarrow> Some t | _ \<Rightarrow> None)"

definition onHandleAuthentication :: "string list option \<Rightarrow> Hook" where
  "onHandleAuthentication roles c =
     (case jwt c of
        None \<Rightarrow> (c, Inr Undefined)
      | Some verify \<Rightarrow>
          (case authorization c of
             None \<Rightarrow> (c\<lparr>set_status := Some 401\<rparr>, Inr UNAUTHORIZED_MESSAGE)
           | Some token \<Rightarrow>
               if token = [] then (c\<lparr>set_status := Some 401\<rparr>, Inr UNAUTHORIZED_MESSAGE)
               else
                 (case verify (bearer_part token) of
                    Inl e \<Rightarrow> (c, Inl e)
                  | Inr None \<Rightarrow> (c\<lparr>set_status := Some 401\<rparr>, Inr UNAUTHORIZED_MESSAGE)
                  | Inr (Some jwtVerifyResult) \<Rightarrow>
                      (let c' = c\<lparr>store_user := Some jwtVerifyResult\<rparr> in
                       case roles of
                         None \<Rightarrow> (c', Inr Undefined)
                       | Some rs \<Rightarrow>
                           if list_ex (\<lambda>r. role jwtVerifyResult = Some r) rs
                           then (c', Inr Undefined)
                           else (c'\<lparr>set_status := Some 403\<rparr>, Inl FORBIDDEN_MESSAGE)))))"

section \<open>The engine\<close>

text \<open>
  The engine is an external collaborator. Of it the embedding keeps what the core hands
  over: the registrations made through \<^verbatim>\<open>app.route\<close> and \<^verbatim>\<open>app.ws\<close>, in the order of
  the calls, with the configuration fields the core sets.
\<close>

datatype Detail = DetailSchema OpenApiDetailMetadata | SecurityOpen | SecurityBearerAuth

record RouteRegistration =
  route_method :: string
  route_path :: string
  route_handler :: WrappedHandler
  route_afterHandle :: "Hook option"
  route_beforeHandle :: "Hook option"
  route_tags :: "string list"
  route_body :: "TSchema option"
  route_query :: "TSchema option"
  route_detail :: Detail
  route_response :: "OpenApiResponseMetadata option"

text \<open>A lifecycle method of a socket class, bound to the instance of the class.\<close>

type_synonym BoundMethod = "Handler \<times> Instance"

record WsRegistration =
  ws_path :: string
  ws_beforeHandle :: "Hook option"
  ws_open :: "BoundMethod option"
  ws_close :: "BoundMethod option"
  ws_message :: "BoundMethod option"
  ws_body :: "TSchema option"

record Elysia =
  routes :: "RouteRegistration list"
  sockets :: "WsRegistration list"

text \<open>
  What the engine does with a registration when a request arrives is the engine's own code
  and not part of this repository. Its lifecycle, as far as the core relies on it: a
  pre-handler, when one is installed, is called first; when it throws, the thrown value goes
  to the error hook; when it returns a value, that value is the response; and only when it
  returns nothing is the handler called. A value the handler throws goes to the same error
  hook.
\<close>

datatype Event = CalledBeforeHandle Hook | CalledHandler

datatype Outcome = Responded jsval | Streaming gen | ToErrorHook jsval

definition run_handler :: "WrappedHandler \<Rightarrow> Context \<Rightarrow> Outcome" where
  "run_handler h c =
     (case h of
        WrappedPlain f \<Rightarrow> (case f c of Inl e \<Rightarrow> ToErrorHook e | Inr v \<Rightarrow> Responded v)
      | WrappedGenerator f \<Rightarrow> Streaming (f c))"

definition engine_lifecycle ::
  "Hook option \<Rightarrow> (Context \<Rightarrow> Outcome) \<Rightarrow> Context \<Rightarrow> Event list \<times> Context \<times> Outcome" where
  "engine_lifecycle before run c =
     (case before of
        None \<Rightarrow> ([CalledHandler], c, run c)
      | Some h \<Rightarrow>
          (case h c of
             (c', Inl e) \<Rightarrow> ([CalledBeforeHandle h], c', ToErrorHook e)
           | (c', Inr v) \<Rightarrow>
               if v = Undefined then ([CalledBeforeHandle h, CalledHandler], c', run c')
               else ([CalledBeforeHandle h], c', Responded v)))"

definition engine_request :: "RouteRegistration \<Rightarrow> Context \<Rightarrow> Event list \<times> Context \<times> Outcome" where
  "engine_request r c = engine_lifecycle (route_beforeHandle r) (run_handler (route_handler r)) c"

text \<open>
  For a socket the handler body is the \<^verbatim>\<open>open\<close> hook, which receives the raw socket; what
  it does is not modelled, only that it is reached.
\<close>

definition engine_upgrade :: "WsRegistration \<Rightarrow> Context \<Rightarrow> Event list \<times> Context \<times> Outcome" where
  "engine_upgrade r c = engine_lifecycle (ws_beforeHandle r) (\<lambda>c. Responded Undefined) c"

section \<open>Classes, the service map and the metadata registry\<close>

text \<open>
  A class has an identity, a name and, when it extends another class, a superclass.
  \<^verbatim>\<open>design:paramtypes\<close> is the metadata the compiler emits for the constructor's parameter
  types; the core reads only the \<^verbatim>\<open>name\<close> of each of these classes.
\<close>

datatype ClassLike =
  ClassLike (cid: nat) (name: string) (design_paramtypes: "string list option")
    (superclass: "ClassLike option")

text \<open>The prototype chain of a class: the class itself, then its superclasses.\<close>

fun chain :: "ClassLike \<Rightarrow> ClassLike list" where
  "chain (ClassLike i n p None) = [ClassLike i n p None]"
| "chain (ClassLike i n p (Some s)) = ClassLike i n p (Some s) # chain s"

text \<open>
  \<^verbatim>\<open>Reflect.getMetadata(key, target)\<close> on a class: the value that the class itself holds under
  the key or, when it holds none, the value of the nearest superclass that holds one. \<open>own\<close>
  is the metadata under the key that each class holds itself, which is what
  \<^verbatim>\<open>Reflect.defineMetadata\<close> writes.
\<close>

fun lookup_chain :: "('k \<rightharpoonup> 'v) \<Rightarrow> 'k list \<Rightarrow> 'v option" where
  "lookup_chain own [] = None"
| "lookup_chain own (c # cs) = (case own c of Some v \<Rightarrow> Some v | None \<Rightarrow> lookup_chain own cs)"

definition Reflect_getMetadata :: "(ClassLike \<rightharpoonup> 'v) \<Rightarrow> ClassLike \<Rightarrow> 'v option" where
  "Reflect_getMetadata own target = lookup_chain own (chain target)"

text \<open>
  What ends a run: \<^verbatim>\<open>process.exit(-1)\<close> after a diagnostic (the diagnostic names the case),
  or a \<^verbatim>\<open>TypeError\<close> that the runtime throws and nothing catches.
\<close>

datatype fatal =
  ServiceAlreadyExists string
| InjectedServiceUndefined string
| InvalidClassModule
| UncaughtTypeError string

type_synonym ServicesMap = "string \<rightharpoonup> Instance"

definition Service :: "ClassLike \<Rightarrow> ServicesMap \<Rightarrow> fatal + ServicesMap" where
  "Service target sm =
     (let classname = name target in
      if sm classname \<noteq> None then Inl (ServiceAlreadyExists classname)
      else Inr (sm(classname \<mapsto> New (cid target) [])))"

text \<open>
  The value under the key \<^verbatim>\<open>metadata\<close> of a class is one object. The route decorators
  expect it to be an array and push route entries onto it; \<^verbatim>\<open>Open\<close>, \<^verbatim>\<open>Close\<close> and
  \<^verbatim>\<open>Message\<close> set the properties \<^verbatim>\<open>open\<close>, \<^verbatim>\<open>close\<close>, \<^verbatim>\<open>message\<close> and \<^verbatim>\<open>body\<close> on it,
  whatever it is. \<open>obj_routes\<close> is \<open>Some\<close> of the elements when the object is an array and
  \<open>None\<close> when it is a plain object.
\<close>

record MetadataObject =
  obj_routes :: "Metadata list option"
  obj_open :: "Handler option"
  obj_close :: "Handler option"
  obj_message :: "Handler option"
  obj_body :: "TSchema option"

text \<open>The literals \<^verbatim>\<open>[]\<close> and \<^verbatim>\<open>{}\<close>.\<close>

definition empty_array :: MetadataObject where
  "empty_array =
     \<lparr>obj_routes = Some [], obj_open = None, obj_close = None, obj_message = None, obj_body = None\<rparr>"

definition empty_object :: MetadataObject where
  "empty_object =
     \<lparr>obj_routes = None, obj_open = None, obj_close = None, obj_message = None, obj_body = None\<rparr>"

text \<open>
  What the class decorators \<^verbatim>\<open>Controller\<close> and \<^verbatim>\<open>Websocket\<close> store under the key
  \<^verbatim>\<open>initialize\<close>: the closure \<^verbatim>\<open>initializeController\<close> with the variables it captured (the
  normalised prefix, or the path and the public flag, and the class).
\<close>

datatype Initializer =
  ControllerInitializer string ClassLike
| WebsocketInitializer string bool ClassLike

text \<open>
  The registry of \<^verbatim>\<open>reflect-metadata\<close>, one map per key the core uses, from the target to
  the value the target holds itself. The targets are handler functions (by their identity) for
  the first six keys and classes for the others. A handler function has no prototype that
  carries metadata, so a lookup on a handler reads the map; a lookup on a class goes along
  the chain.

  The objects under the key \<^verbatim>\<open>metadata\<close> are mutated in place and can be shared between a
  class and its subclasses, so the map holds their addresses and \<open>heap\<close> their contents;
  \<open>next_address\<close> is the address of the next object that a literal creates. The lists
  under \<^verbatim>\<open>customDecorators\<close> are written only while the parameters of their method are
  decorated, which is over when a route entry takes the list, so they are kept as values.
\<close>

record Registry =
  md_body :: "nat \<rightharpoonup> TSchema option \<times> nat"
  md_param :: "nat \<rightharpoonup> string \<times> nat"
  md_query :: "nat \<rightharpoonup> TSchema option \<times> nat"
  md_rawContext :: "nat \<rightharpoonup> nat"
  md_customDecorators :: "nat \<rightharpoonup> CustomDecorator list"
  md_public :: "nat \<rightharpoonup> bool"
  md_metadata :: "ClassLike \<rightharpoonup> nat"
  md_tag :: "ClassLike \<rightharpoonup> string"
  md_initialize :: "ClassLike \<rightharpoonup> Initializer"
  md_controllers :: "ClassLike \<rightharpoonup> ClassLike list"
  heap :: "nat \<Rightarrow> MetadataObject"
  next_address :: nat

text \<open>
  \<^verbatim>\<open>Reflect.getMetadata("metadata", target) || literal\<close>: the address of the object the lookup
  finds, or of a new object made by the literal.
\<close>

definition metadata_or :: "MetadataObject \<Rightarrow> ClassLike \<Rightarrow> Registry \<Rightarrow> nat \<times> Registry" where
  "metadata_or literal target reg =
     (case Reflect_getMetadata (md_metadata reg) target of
        Some a \<Rightarrow> (a, reg)
      | None \<Rightarrow>
          (next_address reg,
           reg\<lparr>heap := (heap reg)(next_address reg := literal),
               next_address := Suc (next_address reg)\<rparr>))"

record HttpMethodMetadataSetterProps =
  props_path :: string
  props_method :: string
  props_handler :: Handler
  controllerClass :: ClassLike
  openapi :: "OpenApiMetadata option"

definition or_empty :: "'a list option \<Rightarrow> 'a list" where
  "or_empty x = (case x of None \<Rightarrow> [] | Some xs \<Rightarrow> xs)"

text \<open>The object that \<^verbatim>\<open>httpMethodMetadataSetter\<close> pushes.\<close>

definition route_entry :: "HttpMethodMetadataSetterProps \<Rightarrow> Registry \<Rightarrow> Metadata" where
  "route_entry props reg =
     (let h = hid (props_handler props);
          path' = (if startsWith_slash (props_path props) then props_path props
                   else ''/'' @ props_path props)
      in \<lparr>path = path',
          httpMethod = props_method props,
          handler = props_handler props,
          bodySchema = md_body reg h,
          querySchema = md_query reg h,
          paramSlug = md_param reg h,
          rawContext = md_rawContext reg h,
          isPublic = (md_public reg h = Some True),
          detailSchema = map_option openapi_detail (openapi props),
          responseSchema = map_option openapi_response (openapi props),
          customDecorators = or_empty (md_customDecorators reg h)\<rparr>)"

text \<open>
  \<^verbatim>\<open>httpMethodMetadataSetter\<close>: the entry is pushed onto the object that the lookup along
  the chain finds, in place, and that same object is then defined on the class itself. When
  the object is not an array, \<^verbatim>\<open>metadata.push\<close> is not a function and the call throws.
\<close>

definition httpMethodMetadataSetter :: "HttpMethodMetadataSetterProps \<Rightarrow> Registry \<Rightarrow> fatal + Registry" where
  "httpMethodMetadataSetter props reg =
     (let (a, reg') = metadata_or empty_array (controllerClass props) reg
      in case obj_routes (heap reg' a) of
           None \<Rightarrow> Inl (UncaughtTypeError ''metadata.push is not a function'')
         | Some metadata \<Rightarrow>
             Inr (reg'\<lparr>heap := (heap reg')(a := (heap reg' a)
                          \<lparr>obj_routes := Some (metadata @ [route_entry props reg])\<rparr>),
                       md_metadata := (md_metadata reg')(controllerClass props \<mapsto> a)\<rparr>))"

section \<open>The world: registry, services and the queue of the next tick\<close>

text \<open>
  The semantics of \<^verbatim>\<open>process.nextTick\<close> in the runtime: \<^verbatim>\<open>process.nextTick(f)\<close> appends \<open>f\<close>
  to a queue that the runtime empties, first in first out, once the code that is running has
  returned and before any other continuation goes on. Two kinds of callbacks are queued by
  the core: the publication of a route (\<^verbatim>\<open>Get\<close>, \<^verbatim>\<open>Post\<close>, ...) and the \<^verbatim>\<open>resolve\<close> of the
  promise that an initializer awaits (\<^verbatim>\<open>await nextTick()\<close>). A callback that throws ends the
  run.
\<close>

datatype Task = Publish HttpMethodMetadataSetterProps | Resolve

record World =
  registry :: Registry
  services :: ServicesMap
  nextTickQueue :: "Task list"

definition process_nextTick :: "Task \<Rightarrow> World \<Rightarrow> World" where
  "process_nextTick t w = w\<lparr>nextTickQueue := nextTickQueue w @ [t]\<rparr>"

fun run_tasks :: "Task list \<Rightarrow> Registry \<Rightarrow> fatal + Registry" where
  "run_tasks [] reg = Inr reg"
| "run_tasks (Publish props # ts) reg =
     (case httpMethodMetadataSetter props reg of
        Inl e \<Rightarrow> Inl e
      | Inr reg' \<Rightarrow> run_tasks ts reg')"
| "run_tasks (Resolve # ts) reg = run_tasks ts reg"

text \<open>
  \<^verbatim>\<open>await nextTick()\<close>: the \<^verbatim>\<open>resolve\<close> is queued behind what is already in the queue, the
  running code is suspended, the runtime empties the queue, and the code after the
  \<^verbatim>\<open>await\<close> goes on in the world that results.
\<close>

definition await_nextTick :: "World \<Rightarrow> fatal + World" where
  "await_nextTick w =
     (let w' = process_nextTick Resolve w
      in case run_tasks (nextTickQueue w') (registry w') of
           Inl e \<Rightarrow> Inl e
         | Inr reg \<Rightarrow> Inr (w'\<lparr>registry := reg, nextTickQueue := []\<rparr>))"

section \<open>The decorators\<close>

definition on_registry :: "(Registry \<Rightarrow> Registry) \<Rightarrow> World \<Rightarrow> World" where
  "on_registry f w = w\<lparr>registry := f (registry w)\<rparr>"

definition RawContext :: "Handler \<Rightarrow> nat \<Rightarrow> World \<Rightarrow> World" where
  "RawContext h parameterIndex =
     on_registry (\<lambda>reg. reg\<lparr>md_rawContext := (md_rawContext reg)(hid h \<mapsto> parameterIndex)\<rparr>)"

definition Body :: "TSchema option \<Rightarrow> Handler \<Rightarrow> nat \<Rightarrow> World \<Rightarrow> World" where
  "Body schema h parameterIndex =
     on_registry (\<lambda>reg. reg\<lparr>md_body := (md_body reg)(hid h \<mapsto> (schema, parameterIndex))\<rparr>)"

definition Param :: "string \<Rightarrow> Handler \<Rightarrow> nat \<Rightarrow> World \<Rightarrow> World" where
  "Param slug h parameterIndex =
     on_registry (\<lambda>reg. reg\<lparr>md_param := (md_param reg)(hid h \<mapsto> (slug, parameterIndex))\<rparr>)"

definition Query :: "TSchema option \<Rightarrow> Handler \<Rightarrow> nat \<Rightarrow> World \<Rightarrow> World" where
  "Query schema h parameterIndex =
     on_registry (\<lambda>reg. reg\<lparr>md_query := (md_query reg)(hid h \<mapsto> (schema, parameterIndex))\<rparr>)"

definition createCustomParameterDecorator ::
  "(Context \<Rightarrow> jsval + jsval) \<Rightarrow> Handler \<Rightarrow> nat \<Rightarrow> World \<Rightarrow> World" where
  "createCustomParameterDecorator extractor h parameterIndex =
     on_registry (\<lambda>reg. reg\<lparr>md_customDecorators := (md_customDecorators reg)(hid h \<mapsto>
        or_empty (md_customDecorators reg (hid h))
        @ [\<lparr>cd_handler = extractor, cd_index = parameterIndex\<rparr>])\<rparr>)"

definition Public :: "Handler \<Rightarrow> World \<Rightarrow> World" where
  "Public h = on_registry (\<lambda>reg. reg\<lparr>md_public := (md_public reg)(hid h \<mapsto> True)\<rparr>)"

text \<open>The five route decorators differ in the method string only; the path defaults to \<^verbatim>\<open>/\<close>.\<close>

definition route_decorator ::
  "string \<Rightarrow> string option \<Rightarrow> OpenApiMetadata option \<Rightarrow> ClassLike \<Rightarrow> Handler \<Rightarrow> World \<Rightarrow> World" where
  "route_decorator m path_arg openapi_arg target h =
     process_nextTick (Publish
       \<lparr>props_path = default_arg ''/'' path_arg, props_method = m, props_handler = h,
        controllerClass = target, openapi = openapi_arg\<rparr>)"

definition Get :: "string option \<Rightarrow> OpenApiMetadata option \<Rightarrow> ClassLike \<Rightarrow> Handler \<Rightarrow> World \<Rightarrow> World" where
  "Get = route_decorator ''get''"

definition Post :: "string option \<Rightarrow> OpenApiMetadata option \<Rightarrow> ClassLike \<Rightarrow> Handler \<Rightarrow> World \<Rightarrow> World" where
  "Post = route_decorator ''post''"

definition Put :: "string option \<Rightarrow> OpenApiMetadata option \<Rightarrow> ClassLike \<Rightarrow> Handler \<Rightarrow> World \<Rightarrow> World" where
  "Put = route_decorator ''put''"

definition Delete :: "string option \<Rightarrow> OpenApiMetadata option \<Rightarrow> ClassLike \<Rightarrow> Handler \<Rightarrow> World \<Rightarrow> World" where
  "Delete = route_decorator ''delete''"

definition Patch :: "string option \<Rightarrow> OpenApiMetadata option \<Rightarrow> ClassLike \<Rightarrow> Handler \<Rightarrow> World \<Rightarrow> World" where
  "Patch = route_decorator ''patch''"

text \<open>
  \<^verbatim>\<open>Open\<close>, \<^verbatim>\<open>Close\<close> and \<^verbatim>\<open>Message\<close> set their properties on the object the lookup finds,
  or on a new plain object, and define that object on the class itself.
\<close>

definition Open :: "ClassLike \<Rightarrow> Handler \<Rightarrow> World \<Rightarrow> World" where
  "Open target h =
     on_registry (\<lambda>reg.
       let (a, reg') = metadata_or empty_object target reg
       in reg'\<lparr>heap := (heap reg')(a := (heap reg' a)\<lparr>obj_open := Some h\<rparr>),
               md_metadata := (md_metadata reg')(target \<mapsto> a)\<rparr>)"

definition Close :: "ClassLike \<Rightarrow> Handler \<Rightarrow> World \<Rightarrow> World" where
  "Close target h =
     on_registry (\<lambda>reg.
       let (a, reg') = metadata_or empty_object target reg
       in reg'\<lparr>heap := (heap reg')(a := (heap reg' a)\<lparr>obj_close := Some h\<rparr>),
               md_metadata := (md_metadata reg')(target \<mapsto> a)\<rparr>)"

definition Message :: "TSchema option \<Rightarrow> ClassLike \<Rightarrow> Handler \<Rightarrow> World \<Rightarrow> World" where
  "Message schema target h =
     on_registry (\<lambda>reg.
       let (a, reg') = metadata_or empty_object target reg
       in reg'\<lparr>heap := (heap reg')(a := (heap reg' a)\<lparr>obj_message := Some h, obj_body := schema\<rparr>),
               md_metadata := (md_metadata reg')(target \<mapsto> a)\<rparr>)"

definition ApiTag :: "string \<Rightarrow> ClassLike \<Rightarrow> World \<Rightarrow> World" where
  "ApiTag tag target = on_registry (\<lambda>reg. reg\<lparr>md_tag := (md_tag reg)(target \<mapsto> tag)\<rparr>)"

definition Module :: "ClassLike list \<Rightarrow> ClassLike \<Rightarrow> World \<Rightarrow> World" where
  "Module controllers target =
     on_registry (\<lambda>reg. reg\<lparr>md_controllers := (md_controllers reg)(target \<mapsto> controllers)\<rparr>)"

definition Controller :: "string \<Rightarrow> ClassLike \<Rightarrow> World \<Rightarrow> World" where
  "Controller pfx target =
     (let pfx' = (if \<not> startsWith_slash pfx then ''/'' @ pfx else pfx)
      in on_registry (\<lambda>reg. reg\<lparr>md_initialize := (md_initialize reg)(target \<mapsto>
           ControllerInitializer pfx' target)\<rparr>))"

text \<open>\<open>public_option\<close> is \<^verbatim>\<open>options?.public\<close>, with \<open>None\<close> for \<^verbatim>\<open>undefined\<close>.\<close>

definition Websocket :: "string \<Rightarrow> bool option \<Rightarrow> ClassLike \<Rightarrow> World \<Rightarrow> World" where
  "Websocket ws_path_arg public_option target =
     (let isPublic' = (public_option = Some True)
      in on_registry (\<lambda>reg. reg\<lparr>md_initialize := (md_initialize reg)(target \<mapsto>
           WebsocketInitializer ws_path_arg isPublic' target)\<rparr>))"

section \<open>The initializers\<close>

text \<open>
  The options an initializer is given. \<^verbatim>\<open>ElysiaFactory.create\<close> takes more options (\<^verbatim>\<open>cors\<close>,
  \<^verbatim>\<open>swagger\<close>, \<^verbatim>\<open>error\<close>, \<^verbatim>\<open>plugins\<close>, \<^verbatim>\<open>beforeStart\<close>); they are installed on the engine
  before any controller is initialized and are not modelled.
\<close>

record HookOptions =
  auth :: "Hook option"
  response :: "Hook option"

definition options_auth :: "HookOptions option \<Rightarrow> Hook option" where
  "options_auth options = (case options of None \<Rightarrow> None | Some opts \<Rightarrow> auth opts)"

definition options_response :: "HookOptions option \<Rightarrow> Hook option" where
  "options_response options = (case options of None \<Rightarrow> None | Some opts \<Rightarrow> response opts)"

definition noop_hook :: Hook where
  "noop_hook c = (c, Inr Undefined)"

text \<open>
  The \<^verbatim>\<open>map\<close> over the constructor's parameter types: the first class without a registered
  instance ends the program.
\<close>

fun resolve_services :: "string \<Rightarrow> string list \<Rightarrow> ServicesMap \<Rightarrow> fatal + Instance list" where
  "resolve_services target_name [] sm = Inr []"
| "resolve_services target_name (n # ns) sm =
     (case sm n of
        None \<Rightarrow> Inl (InjectedServiceUndefined target_name)
      | Some instance \<Rightarrow>
          (case resolve_services target_name ns sm of
             Inl e \<Rightarrow> Inl e
           | Inr instances \<Rightarrow> Inr (instance # instances)))"

text \<open>
  Each class holds its own \<^verbatim>\<open>design:paramtypes\<close>, if the compiler emitted any; the lookup
  goes along the chain like every other.
\<close>

definition inject :: "ClassLike \<Rightarrow> ServicesMap \<Rightarrow> fatal + Instance list" where
  "inject target sm =
     resolve_services (name target) (or_empty (Reflect_getMetadata design_paramtypes target)) sm"

definition getDetail :: "Metadata \<Rightarrow> HookOptions option \<Rightarrow> Detail" where
  "getDetail eachMetadata options =
     (case detailSchema eachMetadata of
        Some d \<Rightarrow> DetailSchema d
      | None \<Rightarrow>
          if options_auth options = None \<or> isPublic eachMetadata then SecurityOpen
          else SecurityBearerAuth)"

text \<open>The arguments of one call of \<^verbatim>\<open>app.route\<close>.\<close>

definition route_registration ::
  "string \<Rightarrow> Instance \<Rightarrow> string \<Rightarrow> Hook \<Rightarrow> Hook \<Rightarrow> HookOptions option \<Rightarrow> Metadata \<Rightarrow> RouteRegistration" where
  "route_registration pfx controller tag beforeHandle afterHandle options eachMetadata =
     \<lparr>route_method = httpMethod eachMetadata,
      route_path = pfx @ path eachMetadata,
      route_handler = getHandler eachMetadata controller,
      route_afterHandle = (if isGenerator (handler eachMetadata) then None else Some afterHandle),
      route_beforeHandle = (if isPublic eachMetadata then None else Some beforeHandle),
      route_tags = [tag],
      route_body = (case bodySchema eachMetadata of None \<Rightarrow> None | Some (schema, _) \<Rightarrow> schema),
      route_query = (case querySchema eachMetadata of None \<Rightarrow> None | Some (schema, _) \<Rightarrow> schema),
      route_detail = getDetail eachMetadata options,
      route_response = responseSchema eachMetadata\<rparr>"

text \<open>One turn of the loop over the metadata: the engine records the registration.\<close>

definition register_route ::
  "string \<Rightarrow> Instance \<Rightarrow> string \<Rightarrow> Hook \<Rightarrow> Hook \<Rightarrow> HookOptions option \<Rightarrow> Elysia \<Rightarrow> Metadata \<Rightarrow> Elysia" where
  "register_route pfx controller tag beforeHandle afterHandle options app eachMetadata =
     app\<lparr>routes := routes app @
       [route_registration pfx controller tag beforeHandle afterHandle options eachMetadata]\<rparr>"

fun register_routes :: "(Elysia \<Rightarrow> Metadata \<Rightarrow> Elysia) \<Rightarrow> Elysia \<Rightarrow> Metadata list \<Rightarrow> Elysia" where
  "register_routes reg_one app [] = app"
| "register_routes reg_one app (eachMetadata # rest) =
     register_routes reg_one (reg_one app eachMetadata) rest"

text \<open>
  What \<^verbatim>\<open>for (const eachMetadata of metadata)\<close> iterates over, \<^verbatim>\<open>metadata\<close> being
  \<^verbatim>\<open>Reflect.getMetadata("metadata", target) || []\<close>: the elements of the array the lookup
  finds, nothing when it finds none, and when it finds a plain object, which is not iterable,
  the loop throws.
\<close>

definition metadata_elements :: "Registry \<Rightarrow> ClassLike \<Rightarrow> fatal + Metadata list" where
  "metadata_elements reg target =
     (case Reflect_getMetadata (md_metadata reg) target of
        None \<Rightarrow> Inr []
      | Some a \<Rightarrow>
          (case obj_routes (heap reg a) of
             None \<Rightarrow> Inl (UncaughtTypeError ''metadata is not iterable'')
           | Some metadata \<Rightarrow> Inr metadata))"

text \<open>\<^verbatim>\<open>initializeController\<close> of \<^verbatim>\<open>Controller\<close>, with the prefix and class it captured.\<close>

definition initializeController ::
  "string \<Rightarrow> ClassLike \<Rightarrow> Elysia \<Rightarrow> HookOptions option \<Rightarrow> World \<Rightarrow> fatal + Elysia \<times> World" where
  "initializeController pfx target app options w0 =
     (case await_nextTick w0 of
        Inl e \<Rightarrow> Inl e
      | Inr w \<Rightarrow>
          (let tag = (case Reflect_getMetadata (md_tag (registry w)) target of
                        None \<Rightarrow> ''default'' | Some t \<Rightarrow> t);
               beforeHandle = (case options_auth options of None \<Rightarrow> noop_hook | Some h \<Rightarrow> h);
               afterHandle = (case options_response options of None \<Rightarrow> noop_hook | Some h \<Rightarrow> h)
           in case inject target (services w) of
                Inl e \<Rightarrow> Inl e
              | Inr injected \<Rightarrow>
                  (let controller = New (cid target) injected
                   in case metadata_elements (registry w) target of
                        Inl e \<Rightarrow> Inl e
                      | Inr metadata \<Rightarrow>
                          Inr (register_routes
                                 (register_route pfx controller tag beforeHandle afterHandle options)
                                 app metadata, w))))"

text \<open>
  \<^verbatim>\<open>initializeController\<close> of \<^verbatim>\<open>Websocket\<close>; \<^verbatim>\<open>metadata\<close> is
  \<^verbatim>\<open>Reflect.getMetadata("metadata", target) || {}\<close>.
\<close>

definition initializeWebsocket ::
  "string \<Rightarrow> bool \<Rightarrow> ClassLike \<Rightarrow> Elysia \<Rightarrow> HookOptions option \<Rightarrow> World \<Rightarrow> fatal + Elysia \<times> World" where
  "initializeWebsocket ws_path_arg isPublic' target app options w0 =
     (case await_nextTick w0 of
        Inl e \<Rightarrow> Inl e
      | Inr w \<Rightarrow>
          (case inject target (services w) of
             Inl e \<Rightarrow> Inl e
           | Inr injected \<Rightarrow>
               (let metadata = (case Reflect_getMetadata (md_metadata (registry w)) target of
                                  None \<Rightarrow> empty_object | Some a \<Rightarrow> heap (registry w) a);
                    controller = New (cid target) injected;
                    bind = map_option (\<lambda>h. (h, controller))
                in Inr (app\<lparr>sockets := sockets app @
                          [\<lparr>ws_path = ws_path_arg,
                            ws_beforeHandle = (if \<not> isPublic' then options_auth options else None),
                            ws_open = bind (obj_open metadata),
                            ws_close = bind (obj_close metadata),
                            ws_message = bind (obj_message metadata),
                            ws_body = obj_body metadata\<rparr>]\<rparr>, w))))"

definition run_initializer ::
  "Initializer \<Rightarrow> Elysia \<Rightarrow> HookOptions option \<Rightarrow> World \<Rightarrow> fatal + Elysia \<times> World" where
  "run_initializer init =
     (case init of
        ControllerInitializer pfx target \<Rightarrow> initializeController pfx target
      | WebsocketInitializer p isPublic' target \<Rightarrow> initializeWebsocket p isPublic' target)"

section \<open>The application factory\<close>

text \<open>
  \<^verbatim>\<open>ElysiaFactory.create\<close> from the lookup of the module's controllers on, with its loop
  over them; \<open>app\<close> is the engine as the first half of the function leaves it, with the
  boot callbacks run and the middleware, plugins and error hook installed.
\<close>

fun initialize_all ::
  "ClassLike list \<Rightarrow> Elysia \<Rightarrow> HookOptions option \<Rightarrow> World \<Rightarrow> fatal + Elysia \<times> World" where
  "initialize_all [] app options w = Inr (app, w)"
| "initialize_all (eachControllerClass # rest) app options w =
     (case Reflect_getMetadata (md_initialize (registry w)) eachControllerClass of
        None \<Rightarrow> Inl InvalidClassModule
      | Some init \<Rightarrow>
          (case run_initializer init app
                  (Some \<lparr>auth = options_auth options, response = options_response options\<rparr>) w of
             Inl e \<Rightarrow> Inl e
           | Inr (app', w') \<Rightarrow> initialize_all rest app' options w'))"

definition ElysiaFactory_create ::
  "ClassLike \<Rightarrow> HookOptions option \<Rightarrow> Elysia \<Rightarrow> World \<Rightarrow> fatal + Elysia \<times> World" where
  "ElysiaFactory_create module_class options app w =
     (case Reflect_getMetadata (md_controllers (registry w)) module_class of
        None \<Rightarrow> Inl InvalidClassModule
      | Some controllers \<Rightarrow> initialize_all controllers app options w)"

section \<open>Evaluating a decorated class\<close>

text \<open>
  A class declaration is given as it is written: the methods from top to bottom, for each
  method the annotations of its parameters from left to right (each with the index of its
  parameter) and the annotations of the method from top to bottom, and the annotations of the
  class from top to bottom.

  The semantics of a decorated class in the host language: the decorators are applied in one
  synchronous pass, member by member in the order of the members, for each method first its
  parameter decorators and then its method decorators, and after all members the class
  decorators. The decorators of one target are applied in reverse: the compiler hands the
  helper \<^verbatim>\<open>__decorate\<close> the array of the method's decorators followed by those of its
  parameters, and the helper walks the array from its last element to its first.
\<close>

datatype ParamAnnotation =
  RawContextAnn
| BodyAnn "TSchema option"
| ParamAnn string
| QueryAnn "TSchema option"
| CustomAnn "Context \<Rightarrow> jsval + jsval"

datatype MethodAnnotation =
  GetAnn "string option" "OpenApiMetadata option"
| PostAnn "string option" "OpenApiMetadata option"
| PutAnn "string option" "OpenApiMetadata option"
| DeleteAnn "string option" "OpenApiMetadata option"
| PatchAnn "string option" "OpenApiMetadata option"
| PublicAnn
| OpenAnn
| CloseAnn
| MessageAnn "TSchema option"

datatype ClassAnnotation =
  ControllerAnn string
| WebsocketAnn string "bool option"
| ApiTagAnn string
| ServiceAnn
| ModuleAnn "ClassLike list"

record MethodDeclaration =
  decl_handler :: Handler
  decl_params :: "(nat \<times> ParamAnnotation) list"
  decl_annotations :: "MethodAnnotation list"

record ClassDeclaration =
  decl_class :: ClassLike
  decl_methods :: "MethodDeclaration list"
  decl_class_annotations :: "ClassAnnotation list"

fun apply_param :: "Handler \<Rightarrow> nat \<times> ParamAnnotation \<Rightarrow> World \<Rightarrow> World" where
  "apply_param h (i, RawContextAnn) = RawContext h i"
| "apply_param h (i, BodyAnn schema) = Body schema h i"
| "apply_param h (i, ParamAnn slug) = Param slug h i"
| "apply_param h (i, QueryAnn schema) = Query schema h i"
| "apply_param h (i, CustomAnn extractor) = createCustomParameterDecorator extractor h i"

fun apply_method :: "ClassLike \<Rightarrow> Handler \<Rightarrow> MethodAnnotation \<Rightarrow> World \<Rightarrow> World" where
  "apply_method target h (GetAnn p oa) = Get p oa target h"
| "apply_method target h (PostAnn p oa) = Post p oa target h"
| "apply_method target h (PutAnn p oa) = Put p oa target h"
| "apply_method target h (DeleteAnn p oa) = Delete p oa target h"
| "apply_method target h (PatchAnn p oa) = Patch p oa target h"
| "apply_method target h PublicAnn = Public h"
| "apply_method target h OpenAnn = Open target h"
| "apply_method target h CloseAnn = Close target h"
| "apply_method target h (MessageAnn schema) = Message schema target h"

definition declare_method :: "ClassLike \<Rightarrow> MethodDeclaration \<Rightarrow> World \<Rightarrow> World" where
  "declare_method target m w =
     fold (apply_method target (decl_handler m)) (rev (decl_annotations m))
       (fold (apply_param (decl_handler m)) (rev (decl_params m)) w)"

text \<open>The world in which the class decorators run: all members have been decorated.\<close>

definition declare_members :: "ClassDeclaration \<Rightarrow> World \<Rightarrow> World" where
  "declare_members d w = fold (declare_method (decl_class d)) (decl_methods d) w"

fun apply_class :: "ClassLike \<Rightarrow> ClassAnnotation \<Rightarrow> World \<Rightarrow> fatal + World" where
  "apply_class target (ControllerAnn p) w = Inr (Controller p target w)"
| "apply_class target (WebsocketAnn p public_option) w = Inr (Websocket p public_option target w)"
| "apply_class target (ApiTagAnn tag) w = Inr (ApiTag tag target w)"
| "apply_class target ServiceAnn w =
     (case Service target (services w) of
        Inl e \<Rightarrow> Inl e
      | Inr sm \<Rightarrow> Inr (w\<lparr>services := sm\<rparr>))"
| "apply_class target (ModuleAnn controllers) w = Inr (Module controllers target w)"

fun apply_class_annotations :: "ClassLike \<Rightarrow> ClassAnnotation list \<Rightarrow> World \<Rightarrow> fatal + World" where
  "apply_class_annotations target [] w = Inr w"
| "apply_class_annotations target (a # as) w =
     (case apply_class target a w of
        Inl e \<Rightarrow> Inl e
      | Inr w' \<Rightarrow> apply_class_annotations target as w')"

definition declare_class :: "ClassDeclaration \<Rightarrow> World \<Rightarrow> fatal + World" where
  "declare_class d w =
     apply_class_annotations (decl_class d) (rev (decl_class_annotations d)) (declare_members d w)"

text \<open>A program declares its classes, one after the other, and then calls the factory.\<close>

fun declare_classes :: "ClassDeclaration list \<Rightarrow> World \<Rightarrow> fatal + World" where
  "declare_classes [] w = Inr w"
| "declare_classes (d # ds) w =
     (case declare_class d w of Inl e \<Rightarrow> Inl e | Inr w' \<Rightarrow> declare_classes ds w')"

definition run_program ::
  "ClassDeclaration list \<Rightarrow> ClassLike \<Rightarrow> HookOptions option \<Rightarrow> Elysia \<Rightarrow> World
     \<Rightarrow> fatal + Elysia \<times> World" where
  "run_program ds module_class options app w =
     (case declare_classes ds w of
        Inl e \<Rightarrow> Inl e
      | Inr w' \<Rightarrow> ElysiaFactory_create module_class options app w')"

definition empty_registry :: Registry where
  "empty_registry =
     \<lparr>md_body = Map.empty, md_param = Map.empty, md_query = Map.empty,
      md_rawContext = Map.empty, md_customDecorators = Map.empty, md_public = Map.empty,
      md_metadata = Map.empty, md_tag = Map.empty,
      md_initialize = Map.empty, md_controllers = Map.empty,
      heap = (\<lambda>a. empty_object), next_address = 0\<rparr>"

definition empty_world :: World where
  "empty_world = \<lparr>registry = empty_registry, services = Map.empty, nextTickQueue = []\<rparr>"

definition empty_app :: Elysia where
  "empty_app = \<lparr>routes = [], sockets = []\<rparr>"

text \<open>What a program has the engine register: method and path of every route, in order.\<close>

definition registered :: "fatal + Elysia \<times> World \<Rightarrow> fatal + (string \<times> string) list" where
  "registered result =
     (case result of
        Inl e \<Rightarrow> Inl e
      | Inr (app, w) \<Rightarrow> Inr (map (\<lambda>r. (route_method r, route_path r)) (routes app)))"

text \<open>What the registered routes of a program answer to a request, in order.\<close>

definition responses :: "fatal + Elysia \<times> World \<Rightarrow> Context \<Rightarrow> fatal + Outcome list" where
  "responses result c =
     (case result of
        Inl e \<Rightarrow> Inl e
      | Inr (app, w) \<Rightarrow> Inr (map (\<lambda>r. run_handler (route_handler r) c) (routes app)))"

section \<open>The routes a class declares, as the specification words them\<close>

text \<open>A path normalised to begin with a slash.\<close>

definition with_leading_slash :: "string \<Rightarrow> string" where
  "with_leading_slash p = (if startsWith_slash p then p else CHR ''/'' # p)"

text \<open>The method string and the path of a route annotation.\<close>

fun route_of :: "MethodAnnotation \<Rightarrow> (string \<times> string) option" where
  "route_of (GetAnn p _) = Some (''get'', default_arg ''/'' p)"
| "route_of (PostAnn p _) = Some (''post'', default_arg ''/'' p)"
| "route_of (PutAnn p _) = Some (''put'', default_arg ''/'' p)"
| "route_of (DeleteAnn p _) = Some (''delete'', default_arg ''/'' p)"
| "route_of (PatchAnn p _) = Some (''patch'', default_arg ''/'' p)"
| "route_of _ = None"

text \<open>The routes of a class in the order of their declaration.\<close>

definition declared_routes :: "ClassDeclaration \<Rightarrow> (string \<times> string) list" where
  "declared_routes d =
     concat (map (\<lambda>m. List.map_filter route_of (decl_annotations m)) (decl_methods d))"

text \<open>
  The routes of a class in the order in which their annotations are applied: method by
  method, the annotations of one method from the bottom up.
\<close>

definition applied_routes :: "ClassDeclaration \<Rightarrow> (string \<times> string) list" where
  "applied_routes d =
     concat (map (\<lambda>m. List.map_filter route_of (rev (decl_annotations m))) (decl_methods d))"

text \<open>No method carries more than one route annotation.\<close>

definition one_route_per_method :: "ClassDeclaration \<Rightarrow> bool" where
  "one_route_per_method d =
     list_all (\<lambda>m. length (List.map_filter route_of (decl_annotations m)) \<le> 1) (decl_methods d)"

text \<open>The publication that a route annotation on handler \<open>h\<close> of class \<open>target\<close> asks for.\<close>

fun route_props :: "ClassLike \<Rightarrow> Handler \<Rightarrow> MethodAnnotation \<Rightarrow> HttpMethodMetadataSetterProps option" where
  "route_props target h a =
     (case route_of a of
        None \<Rightarrow> None
      | Some (m, p) \<Rightarrow>
          Some \<lparr>props_path = p, props_method = m, props_handler = h, controllerClass = target,
                openapi = (case a of GetAnn _ oa \<Rightarrow> oa | PostAnn _ oa \<Rightarrow> oa | PutAnn _ oa \<Rightarrow> oa
                           | DeleteAnn _ oa \<Rightarrow> oa | PatchAnn _ oa \<Rightarrow> oa | _ \<Rightarrow> None)\<rparr>)"

text \<open>The publications a class declaration asks for, in the order of application.\<close>

definition applied_props :: "ClassDeclaration \<Rightarrow> HttpMethodMetadataSetterProps list" where
  "applied_props d =
     concat (map (\<lambda>m. List.map_filter (route_props (decl_class d) (decl_handler m))
                          (rev (decl_annotations m))) (decl_methods d))"

text \<open>Method and normalised path: of a publication, and of a published route.\<close>

definition published_signature :: "HttpMethodMetadataSetterProps \<Rightarrow> string \<times> string" where
  "published_signature p = (props_method p, with_leading_slash (props_path p))"

definition signature :: "Metadata \<Rightarrow> string \<times> string" where
  "signature m = (httpMethod m, path m)"

text \<open>
  The bindings, the public flag and the extractors of a route are those the registry holds
  for the route's handler.
\<close>

definition assembled_from :: "Registry \<Rightarrow> Metadata \<Rightarrow> bool" where
  "assembled_from reg m =
     (bodySchema m = md_body reg (hid (handler m))
      \<and> querySchema m = md_query reg (hid (handler m))
      \<and> paramSlug m = md_param reg (hid (handler m))
      \<and> rawContext m = md_rawContext reg (hid (handler m))
      \<and> isPublic m = (md_public reg (hid (handler m)) = Some True)
      \<and> customDecorators m = or_empty (md_customDecorators reg (hid (handler m))))"

text \<open>The part of the registry that is keyed by handlers.\<close>

definition handler_maps ::
  "Registry \<Rightarrow> (nat \<rightharpoonup> TSchema option \<times> nat) \<times> (nat \<rightharpoonup> TSchema option \<times> nat)
     \<times> (nat \<rightharpoonup> string \<times> nat) \<times> (nat \<rightharpoonup> nat) \<times> (nat \<rightharpoonup> bool)
     \<times> (nat \<rightharpoonup> CustomDecorator list)" where
  "handler_maps reg =
     (md_body reg, md_query reg, md_param reg, md_rawContext reg, md_public reg,
      md_customDecorators reg)"

text \<open>The routes that a lookup from a class finds published.\<close>

definition published :: "Registry \<Rightarrow> ClassLike \<Rightarrow> Metadata list" where
  "published reg target =
     (case Reflect_getMetadata (md_metadata reg) target of
        None \<Rightarrow> []
      | Some a \<Rightarrow> or_empty (obj_routes (heap reg a)))"

text \<open>The custom extractors that the parameters of a method declare, from left to right.\<close>

fun extractor_of :: "nat \<times> ParamAnnotation \<Rightarrow> CustomDecorator option" where
  "extractor_of (i, CustomAnn extractor) = Some \<lparr>cd_handler = extractor, cd_index = i\<rparr>"
| "extractor_of _ = None"

definition declared_extractors :: "MethodDeclaration \<Rightarrow> CustomDecorator list" where
  "declared_extractors m = List.map_filter extractor_of (decl_params m)"

section \<open>The binding rules, as the specification words them\<close>

text \<open>
  The specification describes parameter extraction as a sequence of writes, one per binding:
  raw context, body, query, path segment, then the custom extractors in the order of the
  metadata's list. \<open>vs\<close> are the values the extractors return. These definitions are the
  specification's reading; \<open>getParameters\<close> above is the code.
\<close>

definition fixed_writes :: "Metadata \<Rightarrow> Context \<Rightarrow> (nat \<times> arg) list" where
  "fixed_writes m c =
     (case rawContext m of None \<Rightarrow> [] | Some i \<Rightarrow> [(i, RawCtx c)])
     @ (case bodySchema m of None \<Rightarrow> [] | Some (_, i) \<Rightarrow> [(i, Val (body c))])
     @ (case querySchema m of None \<Rightarrow> [] | Some (_, i) \<Rightarrow> [(i, Val (query c))])
     @ (case paramSlug m of None \<Rightarrow> [] | Some (slug, i) \<Rightarrow> [(i, Val (lookup_param c slug))])"

definition custom_writes :: "CustomDecorator list \<Rightarrow> jsval list \<Rightarrow> (nat \<times> arg) list" where
  "custom_writes ds vs = zip (map cd_index ds) (map Val vs)"

definition binding_writes :: "Metadata \<Rightarrow> Context \<Rightarrow> jsval list \<Rightarrow> (nat \<times> arg) list" where
  "binding_writes m c vs = fixed_writes m c @ custom_writes (customDecorators m) vs"

text \<open>The value of the last write to index \<open>i\<close>, if there is one.\<close>

definition last_write :: "(nat \<times> 'a) list \<Rightarrow> nat \<Rightarrow> 'a option" where
  "last_write ws i = map_of (rev ws) i"

fun apply_writes :: "'a option list \<Rightarrow> (nat \<times> 'a) list \<Rightarrow> 'a option list" where
  "apply_writes p [] = p"
| "apply_writes p ((i, v) # ws) = apply_writes (arr_set p i v) ws"

text \<open>The parameter indices that the bindings of a route claim.\<close>

definition binding_indices :: "Metadata \<Rightarrow> nat list" where
  "binding_indices m =
     (case rawContext m of None \<Rightarrow> [] | Some i \<Rightarrow> [i])
     @ (case bodySchema m of None \<Rightarrow> [] | Some (_, i) \<Rightarrow> [i])
     @ (case querySchema m of None \<Rightarrow> [] | Some (_, i) \<Rightarrow> [i])
     @ (case paramSlug m of None \<Rightarrow> [] | Some (_, i) \<Rightarrow> [i])
     @ map cd_index (customDecorators m)"

text \<open>Every custom extractor returns on context \<open>c\<close>, the \<open>k\<close>-th one the value \<open>vs ! k\<close>.\<close>

definition all_return :: "CustomDecorator list \<Rightarrow> Context \<Rightarrow> jsval list \<Rightarrow> bool" where
  "all_return ds c vs = (map (\<lambda>d. cd_handler d c) ds = map Inr vs)"

section \<open>Sample inputs\<close>

definition sample_context :: Context where
  "sample_context =
     \<lparr>body = JStr ''payload'', query = JObj [(''page'', JNum 2)],
      params = Some [''id'' \<mapsto> JStr ''42''], authorization = None, jwt = None,
      set_status = None, store_user = None\<rparr>"

definition sample_extractor :: "jsval \<Rightarrow> nat \<Rightarrow> CustomDecorator" where
  "sample_extractor v i = \<lparr>cd_handler = (\<lambda>c. Inr v), cd_index = i\<rparr>"

definition sample_route :: "Handler \<Rightarrow> Metadata" where
  "sample_route h =
     \<lparr>path = ''/a'', httpMethod = ''get'', handler = h, bodySchema = None, querySchema = None,
      paramSlug = None, rawContext = None, isPublic = False, detailSchema = None,
      responseSchema = None, customDecorators = []\<rparr>"

definition plain_handler :: Handler where
  "plain_handler = \<lparr>hid = 1, impl = PlainFn (\<lambda>this args. Inr (JNum (int (length args))))\<rparr>"

definition failing_stream :: Handler where
  "failing_stream =
     \<lparr>hid = 2, impl = GeneratorFn (\<lambda>this args. Yield (JNum 1) (Throw (JStr ''boom'')))\<rparr>"

text \<open>A handler that answers with its first argument.\<close>

definition first_argument :: Handler where
  "first_argument =
     \<lparr>hid = 3, impl = PlainFn (\<lambda>this args. case args of Val v # _ \<Rightarrow> Inr v | _ \<Rightarrow> Inr Undefined)\<rparr>"

text \<open>Bindings at the parameter positions 0, 2 and 3; position 1 has none.\<close>

definition bindings_0_2_3 :: Metadata where
  "bindings_0_2_3 =
     (sample_route plain_handler)
       \<lparr>rawContext := Some 0, paramSlug := Some (''id'', 2),
        customDecorators := [sample_extractor (JNum 7) 3]\<rparr>"

text \<open>Six bindings that all claim parameter 0.\<close>

definition bindings_all_at_0 :: Metadata where
  "bindings_all_at_0 =
     (sample_route plain_handler)
       \<lparr>rawContext := Some 0, bodySchema := Some (None, 0), querySchema := Some (None, 0),
        paramSlug := Some (''id'', 0),
        customDecorators := [sample_extractor (JNum 7) 0, sample_extractor (JNum 8) 0]\<rparr>"

text \<open>A verifier that rejects the token \<open>xyz\<close> and accepts every other one as a plain user.\<close>

definition sample_verify :: "string option \<Rightarrow> jsval + JwtPayload option" where
  "sample_verify t =
     (if t = Some ''xyz'' then Inr None
      else Inr (Some \<lparr>id_jwt = Some ''u1'', email = None, role = Some ''user'', iat = None, exp = None\<rparr>))"

definition request_with :: "string option \<Rightarrow> Context" where
  "request_with hdr = sample_context\<lparr>authorization := hdr, jwt := Some sample_verify\<rparr>"

text \<open>Two classes with one name, as two modules may each declare one.\<close>

definition UserService_A :: ClassLike where
  "UserService_A = ClassLike 10 ''UserService'' None None"

definition UserService_B :: ClassLike where
  "UserService_B = ClassLike 11 ''UserService'' None None"

definition service_declaration :: "ClassLike \<Rightarrow> ClassDeclaration" where
  "service_declaration c = \<lparr>decl_class = c, decl_methods = [], decl_class_annotations = [ServiceAnn]\<rparr>"

text \<open>
  A controller under the prefix \<^verbatim>\<open>users\<close> with a public GET route \<^verbatim>\<open>a\<close>, whose parameter 0
  is bound to the body, and a streaming POST route \<^verbatim>\<open>/b\<close>.
\<close>

definition UserController :: ClassLike where
  "UserController = ClassLike 1 ''UserController'' None None"

definition sample_declaration :: ClassDeclaration where
  "sample_declaration =
     \<lparr>decl_class = UserController,
      decl_methods =
        [\<lparr>decl_handler = plain_handler, decl_params = [(0, BodyAnn None)],
          decl_annotations = [PublicAnn, GetAnn (Some ''a'') None]\<rparr>,
         \<lparr>decl_handler = failing_stream, decl_params = [],
          decl_annotations = [PostAnn (Some ''/b'') None]\<rparr>],
      decl_class_annotations = [ControllerAnn ''users'']\<rparr>"

definition sample_options :: "HookOptions option" where
  "sample_options = Some \<lparr>auth = Some (onHandleAuthentication None), response = None\<rparr>"

definition sample_world :: World where
  "sample_world = Controller ''users'' UserController (declare_members sample_declaration empty_world)"

text \<open>The module class of a program with the given controllers.\<close>

definition AppModule :: ClassLike where
  "AppModule = ClassLike 100 ''AppModule'' None None"

definition module_declaration :: "ClassLike list \<Rightarrow> ClassDeclaration" where
  "module_declaration controllers =
     \<lparr>decl_class = AppModule, decl_methods = [], decl_class_annotations = [ModuleAnn controllers]\<rparr>"

text \<open>
  A controller with one method that carries two route annotations, \<^verbatim>\<open>Get("/a")\<close> above
  \<^verbatim>\<open>Post("/b")\<close>.
\<close>

definition StackedController :: ClassLike where
  "StackedController = ClassLike 2 ''StackedController'' None None"

definition stacked_declaration :: ClassDeclaration where
  "stacked_declaration =
     \<lparr>decl_class = StackedController,
      decl_methods =
        [\<lparr>decl_handler = plain_handler, decl_params = [],
          decl_annotations = [GetAnn (Some ''/a'') None, PostAnn (Some ''/b'') None]\<rparr>],
      decl_class_annotations = [ControllerAnn ''c'']\<rparr>"

text \<open>
  A controller whose only route answers with its first argument; two custom extractors are
  declared on that parameter, the one that gives 7 to the left of the one that gives 8.
\<close>

definition ExtractorController :: ClassLike where
  "ExtractorController = ClassLike 3 ''ExtractorController'' None None"

definition extractor_declaration :: ClassDeclaration where
  "extractor_declaration =
     \<lparr>decl_class = ExtractorController,
      decl_methods =
        [\<lparr>decl_handler = first_argument,
          decl_params = [(0, CustomAnn (\<lambda>c. Inr (JNum 7))), (0, CustomAnn (\<lambda>c. Inr (JNum 8)))],
          decl_annotations = [GetAnn None None]\<rparr>],
      decl_class_annotations = [ControllerAnn ''e'']\<rparr>"

text \<open>A socket class with an \<^verbatim>\<open>open\<close> method, declared with the given \<^verbatim>\<open>public\<close> option.\<close>

definition ChatSocket :: ClassLike where
  "ChatSocket = ClassLike 4 ''ChatSocket'' None None"

definition socket_declaration :: "bool option \<Rightarrow> ClassDeclaration" where
  "socket_declaration public_option =
     \<lparr>decl_class = ChatSocket,
      decl_methods =
        [\<lparr>decl_handler = plain_handler, decl_params = [], decl_annotations = [OpenAnn]\<rparr>],
      decl_class_annotations = [WebsocketAnn ''/ws'' public_option]\<rparr>"

definition socket_world :: "bool option \<Rightarrow> World" where
  "socket_world public_option =
     Websocket ''/ws'' public_option ChatSocket
       (declare_members (socket_declaration public_option) empty_world)"


text \<open>A controller and a controller that extends it, each with one route of its own.\<close>

definition BaseController :: ClassLike where
  "BaseController = ClassLike 5 ''BaseController'' None None"

definition SubController :: ClassLike where
  "SubController = ClassLike 6 ''SubController'' None (Some BaseController)"

definition base_declaration :: ClassDeclaration where
  "base_declaration =
     \<lparr>decl_class = BaseController,
      decl_methods =
        [\<lparr>decl_handler = plain_handler, decl_params = [],
          decl_annotations = [GetAnn (Some ''/base'') None]\<rparr>],
      decl_class_annotations = [ControllerAnn ''/one'']\<rparr>"

definition sub_declaration :: ClassDeclaration where
  "sub_declaration =
     \<lparr>decl_class = SubController,
      decl_methods =
        [\<lparr>decl_handler = first_argument, decl_params = [],
          decl_annotations = [GetAnn (Some ''/sub'') None]\<rparr>],
      decl_class_annotations = [ControllerAnn ''/two'']\<rparr>"

text \<open>A class that declares a socket hook and a route.\<close>

definition MixedController :: ClassLike where
  "MixedController = ClassLike 7 ''MixedController'' None None"

definition mixed_declaration :: ClassDeclaration where
  "mixed_declaration =
     \<lparr>decl_class = MixedController,
      decl_methods =
        [\<lparr>decl_handler = plain_handler, decl_params = [], decl_annotations = [OpenAnn]\<rparr>,
         \<lparr>decl_handler = first_argument, decl_params = [],
          decl_annotations = [GetAnn (Some ''/m'') None]\<rparr>],
      decl_class_annotations = [ControllerAnn ''/mixed'']\<rparr>"

chapter \<open>Verified properties\<close>

section \<open>Properties of the exception hierarchy\<close>

lemmas status_table =
  INTERNAL_SERVER_ERROR_def BAD_REQUEST_def UNAUTHORIZED_def FORBIDDEN_def NOT_FOUND_def
  METHOD_NOT_ALLOWED_def BAD_REQUEST_MESSAGE_def UNAUTHORIZED_MESSAGE_TEXT_def
  FORBIDDEN_MESSAGE_TEXT_def NOT_FOUND_MESSAGE_def METHOD_NOT_ALLOWED_MESSAGE_def

text \<open>
  Claim C10. An \<^verbatim>\<open>HttpException\<close> built with a falsy status (0 or \<^verbatim>\<open>undefined\<close>) has
  status 500, with any other status it keeps it, and every subclass built without an
  argument has its fixed status and default message: 403 Forbidden, 400 Bad Request,
  401 Unauthorized, 404 Not Found, 405 Method Not Allowed.
\<close>

theorem HttpException_status_defaults:
  "exn_status (new_HttpException n m s) = (if falsy_status s then 500 else the s)
   \<and> exn_message (new_HttpException n m s) = m
   \<and> exn_status (ForbiddenException None) = 403
   \<and> exn_message (ForbiddenException None) = ''Forbidden''
   \<and> exn_status (BadRequestException None) = 400
   \<and> exn_message (BadRequestException None) = ''Bad Request''
   \<and> exn_status (UnauthorizedException None) = 401
   \<and> exn_message (UnauthorizedException None) = ''Unauthorized''
   \<and> exn_status (NotFoundException None) = 404
   \<and> exn_message (NotFoundException None) = ''Not Found''
   \<and> exn_status (MethodNotAllowedException None) = 405
   \<and> exn_message (MethodNotAllowedException None) = ''Method Not Allowed''"
  by (simp add: new_HttpException_def falsy_status_def default_arg_def status_table
      ForbiddenException_def BadRequestException_def UnauthorizedException_def
      NotFoundException_def MethodNotAllowedException_def split: option.split)

theorem HttpException_status_defaults_witness:
  "exn_status (new_HttpException ''HttpException'' ''boom'' (Some 0)) = 500
   \<and> exn_status (new_HttpException ''HttpException'' ''boom'' None) = 500
   \<and> exn_status (new_HttpException ''HttpException'' ''boom'' (Some 418)) = 418"
  using HttpException_status_defaults [of "''HttpException''" "''boom''" "Some 0"]
    HttpException_status_defaults [of "''HttpException''" "''boom''" None]
    HttpException_status_defaults [of "''HttpException''" "''boom''" "Some 418"]
  by (simp add: falsy_status_def)

section \<open>Argument arrays\<close>

lemma arr_get_set: "arr_get (arr_set xs i v) j = (if j = i then Some v else arr_get xs j)"
  by (auto simp: arr_get_def arr_set_def nth_append nth_list_update)

lemma apply_writes_append: "apply_writes p (ws @ ws') = apply_writes (apply_writes p ws) ws'"
  by (induction ws arbitrary: p) auto

lemma arr_get_apply_writes:
  "arr_get (apply_writes p ws) i = (case last_write ws i of Some v \<Rightarrow> Some v | None \<Rightarrow> arr_get p i)"
proof (induction ws arbitrary: p)
  case Nil
  show ?case by (simp add: last_write_def)
next
  case (Cons w ws)
  obtain j v where w: "w = (j, v)" by (cases w)
  show ?case
    unfolding w
    by (simp add: Cons.IH last_write_def arr_get_set map_add_def split: option.split)
qed

lemma last_write_distinct:
  "distinct (map fst ws) \<Longrightarrow> (i, v) \<in> set ws \<Longrightarrow> last_write ws i = Some v"
  unfolding last_write_def by (rule map_of_is_SomeI) (simp_all add: rev_map [symmetric] distinct_rev)

lemma last_write_None: "i \<notin> set (map fst ws) \<Longrightarrow> last_write ws i = None"
  unfolding last_write_def by (simp add: map_of_eq_None_iff)

lemma last_write_member: "last_write ws i = Some v \<Longrightarrow> (i, v) \<in> set ws"
  unfolding last_write_def by (auto dest: map_of_SomeD)

lemma last_write_claimed: "i \<in> set (map fst ws) \<Longrightarrow> \<exists>v. last_write ws i = Some v"
  unfolding last_write_def by (metis map_of_eq_None_iff not_Some_eq set_map set_rev rev_map)

lemma arr_get_Nil: "arr_get [] i = None"
  by (simp add: arr_get_def)

lemma arr_get_from_empty: "arr_get (apply_writes [] ws) i = last_write ws i"
  by (simp add: arr_get_apply_writes arr_get_Nil split: option.split)

lemma last_write_append:
  "last_write (ws @ ws') i = (case last_write ws' i of Some v \<Rightarrow> Some v | None \<Rightarrow> last_write ws i)"
  by (simp add: last_write_def map_add_def split: option.split)

lemma last_write_custom:
  assumes "length vs = length ds" and "i \<in> cd_index ` set ds"
  shows "\<exists>k < length ds. cd_index (ds ! k) = i \<and> last_write (custom_writes ds vs) i = Some (Val (vs ! k))"
proof -
  have "map fst (custom_writes ds vs) = map cd_index ds"
    using assms(1) by (simp add: custom_writes_def)
  with assms(2) have "i \<in> set (map fst (rev (custom_writes ds vs)))"
    by (simp add: rev_map [symmetric])
  then obtain a where a: "map_of (rev (custom_writes ds vs)) i = Some a"
    by (metis map_of_eq_None_iff not_Some_eq set_map)
  then have "(i, a) \<in> set (custom_writes ds vs)"
    by (auto dest: map_of_SomeD)
  then obtain k where "k < length ds" "cd_index (ds ! k) = i" "a = Val (vs ! k)"
    using assms(1) by (auto simp: custom_writes_def set_zip)
  with a show ?thesis by (auto simp: last_write_def)
qed

section \<open>Parameter extraction refines the sequence of writes\<close>

lemma run_customDecorators_writes:
  "all_return ds c vs \<Longrightarrow>
   run_customDecorators ds c p = Inr (apply_writes p (custom_writes ds vs))"
proof (induction ds arbitrary: p vs)
  case Nil
  then show ?case by (simp add: all_return_def custom_writes_def)
next
  case (Cons d ds)
  from Cons.prems obtain v vs' where vs: "vs = v # vs'" and d: "cd_handler d c = Inr v"
    and rest: "all_return ds c vs'"
    by (cases vs) (auto simp: all_return_def)
  show ?case
    using Cons.IH [OF rest] by (simp add: vs d custom_writes_def)
qed

lemma fixed_part_writes:
  "(let p0 = [];
        p1 = (case rawContext m of None \<Rightarrow> p0 | Some i \<Rightarrow> arr_set p0 i (RawCtx c));
        p2 = (case bodySchema m of None \<Rightarrow> p1 | Some (_, i) \<Rightarrow> arr_set p1 i (Val (body c)));
        p3 = (case querySchema m of None \<Rightarrow> p2 | Some (_, i) \<Rightarrow> arr_set p2 i (Val (query c)));
        p4 = (case paramSlug m of None \<Rightarrow> p3
              | Some (slug, i) \<Rightarrow> arr_set p3 i (Val (lookup_param c slug)))
    in f p4) = f (apply_writes [] (fixed_writes m c))"
  by (simp add: fixed_writes_def apply_writes_append split: option.split prod.split)

lemma getParameters_writes:
  assumes "all_return (customDecorators m) c vs"
  shows "getParameters m c = Inr (apply_writes [] (binding_writes m c vs))"
  unfolding getParameters_def fixed_part_writes binding_writes_def apply_writes_append
  by (rule run_customDecorators_writes [OF assms])

lemma all_return_length: "all_return ds c vs \<Longrightarrow> length vs = length ds"
  unfolding all_return_def by (metis length_map)

lemma map_fst_binding_writes:
  "length vs = length (customDecorators m) \<Longrightarrow> map fst (binding_writes m c vs) = binding_indices m"
  by (simp add: binding_writes_def fixed_writes_def custom_writes_def binding_indices_def
      split: option.split prod.split)

section \<open>The wrapping generator\<close>

lemma forward_Done: "forward Done = Done"
  by (subst forward.code) simp

lemma forward_Yield: "forward (Yield v g) = Yield v (forward g)"
  by (subst forward.code) simp

lemma forward_Throw: "forward (Throw e) = Yield e Done"
  by (subst forward.code) simp

lemma forward_produces_Done: "forward (produces vs Done) = produces vs Done"
  by (induction vs) (simp_all add: forward_Done forward_Yield)

lemma forward_produces_Throw: "forward (produces vs (Throw e)) = produces (vs @ [e]) Done"
  by (induction vs) (simp_all add: forward_Throw forward_Yield)

lemma consume_Done: "consume n Done = ([], Finished)"
  by (cases n) simp_all

lemma consume_forward_never_raises: "snd (consume n (forward g)) \<noteq> Raised x"
proof (induction n arbitrary: g)
  case 0
  show ?case by (cases g) (simp_all add: forward_Done forward_Yield forward_Throw)
next
  case (Suc n)
  show ?case
  proof (cases g)
    case Done
    then show ?thesis by (simp add: forward_Done)
  next
    case (Yield v g')
    with Suc [of g'] show ?thesis by (auto simp add: forward_Yield split: prod.split)
  next
    case (Throw e)
    then show ?thesis by (simp add: forward_Throw consume_Done)
  qed
qed

lemma consume_produces_Done: "consume (length vs + k) (produces vs Done) = (vs, Finished)"
  by (induction vs) (cases k; simp)+

section \<open>Index-preserving parameter extraction\<close>



section \<open>Streaming handlers\<close>

text \<open>
  Claim C5. The wrapper of a streaming handler hands every produced value on as a unit of
  its own, and when the iteration raises after some values, the thrown value is handed on as
  the next unit and the sequence then ends normally: the caller never sees the wrapper
  raise. A handler that produces one value and raises on the second gives exactly two
  units, the value and the error, and nothing after them.
\<close>

theorem streaming_handler_forwards_error:
  assumes gen: "impl (handler m) = GeneratorFn f"
  shows "\<exists>w. getHandler m ctrl = WrappedGenerator w
     \<and> (\<forall>c n x. snd (consume n (w c)) \<noteq> Raised x)
     \<and> (\<forall>c ps v g. getParameters m c = Inr ps \<longrightarrow> f ctrl (spread ps) = Yield v g \<longrightarrow>
            (\<exists>g'. w c = Yield v g'))
     \<and> (\<forall>c ps vs. getParameters m c = Inr ps \<longrightarrow> f ctrl (spread ps) = produces vs Done \<longrightarrow>
            w c = produces vs Done)
     \<and> (\<forall>c ps vs e k. getParameters m c = Inr ps \<longrightarrow> f ctrl (spread ps) = produces vs (Throw e) \<longrightarrow>
            w c = produces (vs @ [e]) Done
            \<and> consume (length vs + 1 + k) (w c) = (vs @ [e], Finished))"
proof -
  let ?w = "\<lambda>c. case getParameters m c of
                  Inl e \<Rightarrow> Yield e Done
                | Inr ps \<Rightarrow> forward (f ctrl (spread ps))"
  have w: "getHandler m ctrl = WrappedGenerator ?w"
    by (simp add: getHandler_def gen)
  have never: "snd (consume n (?w c)) \<noteq> Raised x" for c n x
  proof (cases "getParameters m c")
    case (Inl e)
    then show ?thesis by (cases n) (simp_all add: consume_Done)
  next
    case (Inr ps)
    then show ?thesis by (simp add: consume_forward_never_raises)
  qed
  have unit: "\<exists>g'. ?w c = Yield v g'"
    if "getParameters m c = Inr ps" "f ctrl (spread ps) = Yield v g" for c ps v g
    using that by (simp add: forward_Yield)
  have fin: "?w c = produces vs Done"
    if "getParameters m c = Inr ps" "f ctrl (spread ps) = produces vs Done" for c ps vs
    using that by (simp add: forward_produces_Done)
  have thr: "?w c = produces (vs @ [e]) Done
      \<and> consume (length vs + 1 + k) (?w c) = (vs @ [e], Finished)"
    if "getParameters m c = Inr ps" "f ctrl (spread ps) = produces vs (Throw e)" for c ps vs e k
    using that consume_produces_Done [of "vs @ [e]" k]
    by (simp add: forward_produces_Throw)
  show ?thesis
  proof (intro exI conjI)
    show "getHandler m ctrl = WrappedGenerator ?w" by (rule w)
    show "\<forall>c n x. snd (consume n (?w c)) \<noteq> Raised x"
      using never by (intro allI)
    show "\<forall>c ps v g. getParameters m c = Inr ps \<longrightarrow> f ctrl (spread ps) = Yield v g \<longrightarrow>
            (\<exists>g'. ?w c = Yield v g')"
      using unit by (intro allI impI)
    show "\<forall>c ps vs. getParameters m c = Inr ps \<longrightarrow> f ctrl (spread ps) = produces vs Done \<longrightarrow>
            ?w c = produces vs Done"
      using fin by (intro allI impI)
    show "\<forall>c ps vs e k. getParameters m c = Inr ps \<longrightarrow>
            f ctrl (spread ps) = produces vs (Throw e) \<longrightarrow>
            ?w c = produces (vs @ [e]) Done
            \<and> consume (length vs + 1 + k) (?w c) = (vs @ [e], Finished)"
      using thr by (intro allI impI)
  qed
qed

theorem streaming_handler_forwards_error_witness:
  "impl (handler (sample_route failing_stream))
     = GeneratorFn (\<lambda>this args. Yield (JNum 1) (Throw (JStr ''boom'')))
   \<and> (\<exists>w. getHandler (sample_route failing_stream) (New 0 []) = WrappedGenerator w
        \<and> w sample_context = Yield (JNum 1) (Yield (JStr ''boom'') Done)
        \<and> consume 2 (w sample_context) = ([JNum 1, JStr ''boom''], Finished)
        \<and> consume 9 (w sample_context) = ([JNum 1, JStr ''boom''], Finished))"
proof -
  let ?f = "\<lambda>(this :: Instance) (args :: arg list). Yield (JNum 1) (Throw (JStr ''boom''))"
  have g: "impl (handler (sample_route failing_stream)) = GeneratorFn ?f"
    by (simp add: sample_route_def failing_stream_def)
  have p: "getParameters (sample_route failing_stream) sample_context = Inr []"
    by (simp add: getParameters_def sample_route_def)
  have s: "?f (New 0 []) (spread []) = produces [JNum 1] (Throw (JStr ''boom''))"
    by simp
  from streaming_handler_forwards_error [OF g, of "New 0 []"]
  obtain w where w: "getHandler (sample_route failing_stream) (New 0 []) = WrappedGenerator w"
    and thr: "\<And>c ps vs e k. getParameters (sample_route failing_stream) c = Inr ps \<Longrightarrow>
        ?f (New 0 []) (spread ps) = produces vs (Throw e) \<Longrightarrow>
        w c = produces (vs @ [e]) Done \<and> consume (length vs + 1 + k) (w c) = (vs @ [e], Finished)"
    by blast
  from thr [OF p s, of 0] thr [OF p s, of 7] w g show ?thesis
    by (simp add: eval_nat_numeral)
qed

section \<open>Authentication failures\<close>

text \<open>
  Claim C7. On a context that carries a verifier: a request without an Authorization header
  (or with an empty one), and a request whose bearer token the verifier rejects, get status
  401 and the response \<open>{success: false, message: "Unauthorized"}\<close>, which the pre-handler
  itself returns. A request whose token is accepted but whose role is not among the required
  roles gets status 403, and the pre-handler throws the forbidden message instead of
  returning: it leaves on the path of thrown values, as the errors of handlers do.
\<close>

theorem authentication_failure_outcomes:
  assumes j: "jwt c = Some verify"
  shows "(authorization c = None \<or> authorization c = Some [] \<longrightarrow>
            onHandleAuthentication roles c = (c\<lparr>set_status := Some 401\<rparr>, Inr UNAUTHORIZED_MESSAGE))
     \<and> (\<forall>token. authorization c = Some token \<longrightarrow> token \<noteq> [] \<longrightarrow>
            verify (bearer_part token) = Inr None \<longrightarrow>
            onHandleAuthentication roles c = (c\<lparr>set_status := Some 401\<rparr>, Inr UNAUTHORIZED_MESSAGE))
     \<and> (\<forall>token user rs. authorization c = Some token \<longrightarrow> token \<noteq> [] \<longrightarrow>
            verify (bearer_part token) = Inr (Some user) \<longrightarrow>
            roles = Some rs \<longrightarrow> role user \<notin> Some ` set rs \<longrightarrow>
            onHandleAuthentication roles c
              = (c\<lparr>store_user := Some user, set_status := Some 403\<rparr>, Inl FORBIDDEN_MESSAGE))
     \<and> UNAUTHORIZED_MESSAGE = JObj [(''message'', JStr ''Unauthorized''), (''success'', JBool False)]
     \<and> FORBIDDEN_MESSAGE = JObj [(''message'', JStr ''Forbidden''), (''success'', JBool False)]"
proof (intro conjI allI impI)
  assume "authorization c = None \<or> authorization c = Some []"
  then show "onHandleAuthentication roles c = (c\<lparr>set_status := Some 401\<rparr>, Inr UNAUTHORIZED_MESSAGE)"
    using j by (auto simp: onHandleAuthentication_def)
next
  fix token
  assume "authorization c = Some token" "token \<noteq> []" "verify (bearer_part token) = Inr None"
  then show "onHandleAuthentication roles c = (c\<lparr>set_status := Some 401\<rparr>, Inr UNAUTHORIZED_MESSAGE)"
    using j by (simp add: onHandleAuthentication_def)
next
  fix token user rs
  assume "authorization c = Some token" "token \<noteq> []" "verify (bearer_part token) = Inr (Some user)"
    "roles = Some rs" "role user \<notin> Some ` set rs"
  then show "onHandleAuthentication roles c
              = (c\<lparr>store_user := Some user, set_status := Some 403\<rparr>, Inl FORBIDDEN_MESSAGE)"
    using j by (auto simp: onHandleAuthentication_def list_ex_iff Let_def)
next
  show "UNAUTHORIZED_MESSAGE = JObj [(''message'', JStr ''Unauthorized''), (''success'', JBool False)]"
    by (simp add: UNAUTHORIZED_MESSAGE_def)
  show "FORBIDDEN_MESSAGE = JObj [(''message'', JStr ''Forbidden''), (''success'', JBool False)]"
    by (simp add: FORBIDDEN_MESSAGE_def)
qed

lemma bearer_xyz: "bearer_part ''Bearer xyz'' = Some ''xyz''"
  by (simp add: bearer_part_def)

lemma bearer_abc: "bearer_part ''Bearer abc'' = Some ''abc''"
  by (simp add: bearer_part_def)

theorem authentication_failure_outcomes_witness:
  "jwt (request_with (Some ''Bearer xyz'')) = Some sample_verify
   \<and> onHandleAuthentication (Some [''admin'']) (request_with (Some ''Bearer xyz''))
       = ((request_with (Some ''Bearer xyz''))\<lparr>set_status := Some 401\<rparr>, Inr UNAUTHORIZED_MESSAGE)
   \<and> onHandleAuthentication (Some [''admin'']) (request_with None)
       = ((request_with None)\<lparr>set_status := Some 401\<rparr>, Inr UNAUTHORIZED_MESSAGE)
   \<and> (\<exists>user. onHandleAuthentication (Some [''admin'']) (request_with (Some ''Bearer abc''))
       = ((request_with (Some ''Bearer abc''))\<lparr>store_user := Some user, set_status := Some 403\<rparr>,
          Inl FORBIDDEN_MESSAGE))"
proof -
  let ?roles = "Some [''admin'']"
  let ?u = "\<lparr>id_jwt = Some ''u1'', email = None, role = Some ''user'', iat = None, exp = None\<rparr>"
  have j: "jwt (request_with h) = Some sample_verify" for h
    by (simp add: request_with_def)
  have a: "authorization (request_with h) = h" for h
    by (simp add: request_with_def)
  have v1: "sample_verify (bearer_part ''Bearer xyz'') = Inr None"
    by (simp add: bearer_xyz sample_verify_def)
  have v2: "sample_verify (bearer_part ''Bearer abc'') = Inr (Some ?u)"
    by (simp add: bearer_abc sample_verify_def)
  note t1 = authentication_failure_outcomes [OF j, of "Some ''Bearer xyz''" ?roles]
  note t2 = authentication_failure_outcomes [OF j, of None ?roles]
  note t3 = authentication_failure_outcomes [OF j, of "Some ''Bearer abc''" ?roles]
  have 1: "onHandleAuthentication ?roles (request_with (Some ''Bearer xyz''))
       = ((request_with (Some ''Bearer xyz''))\<lparr>set_status := Some 401\<rparr>, Inr UNAUTHORIZED_MESSAGE)"
    using t1 v1 by (simp add: a)
  have 2: "onHandleAuthentication ?roles (request_with None)
       = ((request_with None)\<lparr>set_status := Some 401\<rparr>, Inr UNAUTHORIZED_MESSAGE)"
    using t2 by (simp add: a)
  have 3: "onHandleAuthentication ?roles (request_with (Some ''Bearer abc''))
       = ((request_with (Some ''Bearer abc''))\<lparr>store_user := Some ?u, set_status := Some 403\<rparr>,
          Inl FORBIDDEN_MESSAGE)"
    using t3 v2 by (simp add: a)
  from j 1 2 3 show ?thesis by blast
qed


section \<open>Contexts without a verifier\<close>

text \<open>
  Claim C8. On a context without the \<^verbatim>\<open>jwt\<close> property the authentication hook checks
  nothing: whatever the Authorization header and the required roles are, it returns
  \<^verbatim>\<open>undefined\<close>, as a pre-handler that lets the request pass does, and leaves the context
  (status and stored user included) as it was.
\<close>

theorem no_jwt_no_check:
  assumes "jwt c = None"
  shows "onHandleAuthentication roles c = (c, Inr Undefined)"
  using assms by (simp add: onHandleAuthentication_def)

theorem no_jwt_no_check_witness:
  "jwt (sample_context\<lparr>authorization := Some ''Bearer xyz''\<rparr>) = None
   \<and> onHandleAuthentication (Some [''admin'']) (sample_context\<lparr>authorization := Some ''Bearer xyz''\<rparr>)
       = (sample_context\<lparr>authorization := Some ''Bearer xyz''\<rparr>, Inr Undefined)"
proof -
  have j: "jwt (sample_context\<lparr>authorization := Some ''Bearer xyz''\<rparr>) = None"
    by (simp add: sample_context_def)
  from no_jwt_no_check [OF j, of "Some [''admin'']"] j show ?thesis by simp
qed

section \<open>Service registration\<close>

text \<open>The decorators of the members of a class leave the service map alone.\<close>

lemma services_on_registry [simp]: "services (on_registry f w) = services w"
  by (simp add: on_registry_def)

lemma services_process_nextTick [simp]: "services (process_nextTick t w) = services w"
  by (simp add: process_nextTick_def)

lemma services_apply_param [simp]: "services (apply_param h a w) = services w"
  by (cases "(h, a)" rule: apply_param.cases)
    (simp_all add: RawContext_def Body_def Param_def Query_def createCustomParameterDecorator_def)

lemma services_apply_method [simp]: "services (apply_method t h a w) = services w"
  by (cases a)
    (simp_all add: Get_def Post_def Put_def Delete_def Patch_def route_decorator_def Public_def
      Open_def Close_def Message_def)

lemma services_fold_param [simp]: "services (fold (apply_param h) as w) = services w"
  by (induction as arbitrary: w) simp_all

lemma services_fold_method [simp]: "services (fold (apply_method t h) as w) = services w"
  by (induction as arbitrary: w) simp_all

lemma services_declare_method [simp]: "services (declare_method t m w) = services w"
  by (simp add: declare_method_def)

lemma services_fold_declare_method [simp]:
  "services (fold (declare_method t) ms w) = services w"
  by (induction ms arbitrary: w) simp_all

lemma services_declare_members [simp]: "services (declare_members d w) = services w"
  by (simp add: declare_members_def)

lemma declare_classes_append:
  "declare_classes (ds @ ds') w =
     (case declare_classes ds w of Inl e \<Rightarrow> Inl e | Inr w' \<Rightarrow> declare_classes ds' w')"
  by (induction ds arbitrary: w) (simp_all split: sum.split)

text \<open>
  Claim C6, as stated, speaks of the identity of the class. The service map is keyed by the
  name of the class, so a class that was never registered is refused when another class of
  the same name was registered before it.
\<close>

theorem fresh_class_same_name_is_fatal:
  "cid UserService_B \<noteq> cid UserService_A
   \<and> Service UserService_A Map.empty = Inr [''UserService'' \<mapsto> New 10 []]
   \<and> Service UserService_B [''UserService'' \<mapsto> New 10 []]
       = Inl (ServiceAlreadyExists ''UserService'')"
  by (simp add: Service_def UserService_A_def UserService_B_def)

text \<open>
  Claim C6, amended. Registering a service class whose name is already in the service map is
  fatal, with a diagnostic that names the class, and a registration under a name that is not
  yet there succeeds and stores one new instance under that name. The check runs when the
  class is declared: a program that declares its classes and then calls the factory ends
  at the repeated declaration, before any controller is initialized.
\<close>

theorem Service_registration_by_name:
  "(sm (name target) \<noteq> None \<longrightarrow> Service target sm = Inl (ServiceAlreadyExists (name target)))
   \<and> (sm (name target) = None \<longrightarrow>
        Service target sm = Inr (sm(name target \<mapsto> New (cid target) [])))
   \<and> (\<forall>ds w1 (d :: ClassDeclaration) ds'. declare_classes ds w = Inr w1 \<longrightarrow>
        decl_class_annotations d = [ServiceAnn] \<longrightarrow>
        services w1 (name (decl_class d)) \<noteq> None \<longrightarrow>
        run_program (ds @ d # ds') module_class options app w
          = Inl (ServiceAlreadyExists (name (decl_class d))))"
proof (intro conjI allI impI)
  assume "sm (name target) \<noteq> None"
  then show "Service target sm = Inl (ServiceAlreadyExists (name target))"
    by (simp add: Service_def)
next
  assume "sm (name target) = None"
  then show "Service target sm = Inr (sm(name target \<mapsto> New (cid target) []))"
    by (simp add: Service_def)
next
  fix ds w1 and d :: ClassDeclaration and ds'
  assume ds: "declare_classes ds w = Inr w1"
    and ann: "decl_class_annotations d = [ServiceAnn]"
    and present: "services w1 (name (decl_class d)) \<noteq> None"
  from present have "Service (decl_class d) (services w1)
      = Inl (ServiceAlreadyExists (name (decl_class d)))"
    by (simp add: Service_def)
  then have "declare_class d w1 = Inl (ServiceAlreadyExists (name (decl_class d)))"
    by (simp add: declare_class_def ann)
  then show "run_program (ds @ d # ds') module_class options app w
          = Inl (ServiceAlreadyExists (name (decl_class d)))"
    by (simp add: run_program_def declare_classes_append ds)
qed

theorem Service_registration_by_name_witness:
  "Service UserService_A Map.empty = Inr [''UserService'' \<mapsto> New 10 []]
   \<and> Service UserService_A [''UserService'' \<mapsto> New 10 []] = Inl (ServiceAlreadyExists ''UserService'')
   \<and> run_program [service_declaration UserService_A, service_declaration UserService_A]
        UserService_A None empty_app empty_world = Inl (ServiceAlreadyExists ''UserService'')"
proof -
  let ?sm = "[''UserService'' \<mapsto> New 10 []]"
  have n: "name UserService_A = ''UserService''" "cid UserService_A = 10"
    by (simp_all add: UserService_A_def)
  have d1: "declare_classes [service_declaration UserService_A] empty_world
      = Inr (empty_world\<lparr>services := ?sm\<rparr>)"
    by (simp add: declare_class_def service_declaration_def declare_members_def Service_def n
        empty_world_def)
  note t = Service_registration_by_name [of Map.empty UserService_A empty_world UserService_A None empty_app]
    Service_registration_by_name [of ?sm UserService_A empty_world UserService_A None empty_app]
  have 1: "Service UserService_A Map.empty = Inr ?sm"
    using t(1) by (simp add: n)
  have 2: "Service UserService_A ?sm = Inl (ServiceAlreadyExists ''UserService'')"
    using t(2) by (simp add: n)
  have 3: "run_program [service_declaration UserService_A, service_declaration UserService_A]
        UserService_A None empty_app empty_world = Inl (ServiceAlreadyExists ''UserService'')"
  proof -
    from t(1) have "\<And>ds w1 (d :: ClassDeclaration) ds'.
        declare_classes ds empty_world = Inr w1 \<Longrightarrow>
        decl_class_annotations d = [ServiceAnn] \<Longrightarrow>
        services w1 (name (decl_class d)) \<noteq> None \<Longrightarrow>
        run_program (ds @ d # ds') UserService_A None empty_app empty_world
          = Inl (ServiceAlreadyExists (name (decl_class d)))"
      by blast
    from this [OF d1, of "service_declaration UserService_A" "[]"] show ?thesis
      by (simp add: service_declaration_def n)
  qed
  from 1 2 3 show ?thesis by blast
qed

section \<open>Lookups along the chain\<close>

lemma chain_starts_with_class: "\<exists>cs. chain c = c # cs"
  by (cases c; cases "superclass c") auto

lemma getMetadata_own:
  "own target = Some v \<Longrightarrow> Reflect_getMetadata own target = Some v"
  using chain_starts_with_class [of target] by (auto simp: Reflect_getMetadata_def)

lemma getMetadata_upd_same [simp]:
  "Reflect_getMetadata (own(target \<mapsto> v)) target = Some v"
  by (rule getMetadata_own) simp

section \<open>The declaration pass and the queue of the next tick\<close>

lemma assembled_from_cong:
  "handler_maps reg = handler_maps reg' \<Longrightarrow> assembled_from reg m = assembled_from reg' m"
  by (simp add: handler_maps_def assembled_from_def)

lemma route_entry_cong:
  "handler_maps reg = handler_maps reg' \<Longrightarrow> route_entry p reg = route_entry p reg'"
  by (simp add: handler_maps_def route_entry_def)

lemma queue_apply_param [simp]: "nextTickQueue (apply_param h a w) = nextTickQueue w"
  by (cases "(h, a)" rule: apply_param.cases)
    (simp_all add: RawContext_def Body_def Param_def Query_def createCustomParameterDecorator_def
      on_registry_def)

lemma queue_apply_method:
  "nextTickQueue (apply_method t h a w)
     = nextTickQueue w @ (case route_props t h a of None \<Rightarrow> [] | Some p \<Rightarrow> [Publish p])"
  by (cases a)
    (simp_all add: Get_def Post_def Put_def Delete_def Patch_def route_decorator_def Public_def
      Open_def Close_def Message_def on_registry_def process_nextTick_def)

lemma queue_fold_param [simp]: "nextTickQueue (fold (apply_param h) as w) = nextTickQueue w"
  by (induction as arbitrary: w) simp_all

lemma queue_fold_method:
  "nextTickQueue (fold (apply_method t h) as w)
     = nextTickQueue w @ map Publish (List.map_filter (route_props t h) as)"
proof (induction as arbitrary: w)
  case Nil
  show ?case by (simp add: List.map_filter_simps)
next
  case (Cons a as)
  show ?case
    by (simp add: Cons.IH queue_apply_method List.map_filter_simps split: option.split
        del: route_props.simps)
qed

lemma queue_declare_method:
  "nextTickQueue (declare_method t m w)
     = nextTickQueue w
       @ map Publish (List.map_filter (route_props t (decl_handler m)) (rev (decl_annotations m)))"
  by (simp add: declare_method_def queue_fold_method)

lemma queue_fold_declare_method:
  "nextTickQueue (fold (declare_method t) ms w)
     = nextTickQueue w @ map Publish
         (concat (map (\<lambda>m. List.map_filter (route_props t (decl_handler m))
                             (rev (decl_annotations m))) ms))"
  by (induction ms arbitrary: w) (simp_all add: queue_declare_method)

lemma queue_declare_members:
  "nextTickQueue (declare_members d w) = nextTickQueue w @ map Publish (applied_props d)"
  by (simp add: declare_members_def applied_props_def queue_fold_declare_method)

lemma map_filter_route_props:
  "map (\<lambda>p. (props_method p, props_path p)) (List.map_filter (route_props t h) as)
     = List.map_filter route_of as"
  by (induction as) (auto simp: List.map_filter_simps split: option.split)

lemma applied_props_routes:
  "map (\<lambda>p. (props_method p, props_path p)) (applied_props d) = applied_routes d"
  by (simp add: applied_props_def applied_routes_def map_concat map_filter_route_props comp_def)

lemma class_of_route_props: "route_props t h a = Some p \<Longrightarrow> controllerClass p = t"
  by (auto split: option.splits)

lemma in_set_map_filter:
  "y \<in> set (List.map_filter f xs) \<longleftrightarrow> (\<exists>x \<in> set xs. f x = Some y)"
  by (induction xs) (auto simp: List.map_filter_simps split: option.split)

lemma class_of_applied_props: "p \<in> set (applied_props d) \<Longrightarrow> controllerClass p = decl_class d"
  by (auto simp: applied_props_def in_set_map_filter dest: class_of_route_props
      simp del: route_props.simps)

lemma map_filter_rev: "List.map_filter f (rev xs) = rev (List.map_filter f xs)"
  by (simp add: List.map_filter_def rev_map rev_filter)

lemma rev_short: "length xs \<le> 1 \<Longrightarrow> rev xs = xs"
  by (cases xs) auto

lemma applied_routes_declared:
  "one_route_per_method d \<Longrightarrow> applied_routes d = declared_routes d"
  unfolding one_route_per_method_def applied_routes_def declared_routes_def
  by (induction "decl_methods d" arbitrary: d) (auto simp: map_filter_rev rev_short list_all_iff intro!: arg_cong [where f = concat])

lemma length_applied_routes: "length (applied_routes d) = length (declared_routes d)"
  by (simp add: applied_routes_def declared_routes_def length_concat map_filter_rev comp_def)

section \<open>Publication\<close>

lemma setter_preserves:
  assumes "httpMethodMetadataSetter p reg = Inr reg'"
  shows "handler_maps reg' = handler_maps reg \<and> md_tag reg' = md_tag reg
     \<and> md_initialize reg' = md_initialize reg \<and> md_controllers reg' = md_controllers reg"
  using assms
  by (auto simp: httpMethodMetadataSetter_def metadata_or_def handler_maps_def Let_def
      split: option.splits prod.splits)

lemma setter_step:
  assumes "metadata_elements reg (controllerClass p) = Inr old"
  shows "\<exists>reg'. httpMethodMetadataSetter p reg = Inr reg'
     \<and> metadata_elements reg' (controllerClass p) = Inr (old @ [route_entry p reg])"
  using assms
  by (auto simp: httpMethodMetadataSetter_def metadata_or_def metadata_elements_def Let_def
      empty_array_def split: option.splits prod.splits)

lemma run_tasks_append:
  "run_tasks (ts @ ts') reg =
     (case run_tasks ts reg of Inl e \<Rightarrow> Inl e | Inr reg' \<Rightarrow> run_tasks ts' reg')"
  by (induction ts reg rule: run_tasks.induct) (simp_all split: sum.split)

lemma run_tasks_preserves:
  assumes "run_tasks ts reg = Inr reg'"
  shows "handler_maps reg' = handler_maps reg \<and> md_tag reg' = md_tag reg
     \<and> md_initialize reg' = md_initialize reg \<and> md_controllers reg' = md_controllers reg"
  using assms
proof (induction ts reg rule: run_tasks.induct)
  case (1 reg)
  then show ?case by simp
next
  case (2 props ts reg)
  from 2(2) obtain r where r: "httpMethodMetadataSetter props reg = Inr r"
    and rest: "run_tasks ts r = Inr reg'"
    by (auto split: sum.splits)
  from 2(1) [OF r rest] setter_preserves [OF r] show ?case by simp
next
  case (3 ts reg)
  then show ?case by simp
qed

lemma publish_all:
  assumes "metadata_elements reg cls = Inr old" and "\<forall>p \<in> set ps. controllerClass p = cls"
  shows "\<exists>reg'. run_tasks (map Publish ps) reg = Inr reg'
     \<and> metadata_elements reg' cls = Inr (old @ map (\<lambda>p. route_entry p reg) ps)"
  using assms
proof (induction ps arbitrary: reg old)
  case Nil
  then show ?case by simp
next
  case (Cons p ps)
  from Cons.prems have c: "controllerClass p = cls" by simp
  from setter_step [of reg p old] Cons.prems(1) c obtain r where
    r: "httpMethodMetadataSetter p reg = Inr r"
    "metadata_elements r cls = Inr (old @ [route_entry p reg])"
    by auto
  from Cons.prems have "\<forall>p \<in> set ps. controllerClass p = cls" by simp
  from Cons.IH [OF r(2) this] obtain reg' where
    reg': "run_tasks (map Publish ps) r = Inr reg'"
    "metadata_elements reg' cls = Inr ((old @ [route_entry p reg]) @ map (\<lambda>p. route_entry p r) ps)"
    by blast
  have "map (\<lambda>p. route_entry p r) ps = map (\<lambda>p. route_entry p reg) ps"
    using setter_preserves [OF r(1)] route_entry_cong [of r reg] by simp
  with r(1) reg' show ?case by simp
qed

lemma signature_route_entry [simp]: "signature (route_entry p reg) = published_signature p"
  by (simp add: signature_def route_entry_def published_signature_def with_leading_slash_def Let_def)

lemma handler_route_entry [simp]: "handler (route_entry p reg) = props_handler p"
  by (simp add: route_entry_def Let_def)

lemma assembled_route_entry [simp]: "assembled_from reg (route_entry p reg)"
  by (simp add: assembled_from_def route_entry_def Let_def)

lemma published_signature_routes:
  "map published_signature (applied_props d)
     = map (\<lambda>(m, p). (m, with_leading_slash p)) (applied_routes d)"
proof -
  have "map published_signature (applied_props d)
      = map (\<lambda>(m, p). (m, with_leading_slash p))
          (map (\<lambda>p. (props_method p, props_path p)) (applied_props d))"
    by (simp add: published_signature_def comp_def)
  then show ?thesis by (simp only: applied_props_routes)
qed

lemma run_tasks_Resolve: "run_tasks (ts @ [Resolve]) reg = run_tasks ts reg"
  by (cases "run_tasks ts reg") (simp_all add: run_tasks_append)

lemma await_nextTick_unfold:
  "await_nextTick w =
     (case run_tasks (nextTickQueue w) (registry w) of
        Inl e \<Rightarrow> Inl e
      | Inr reg \<Rightarrow> Inr (w\<lparr>registry := reg, nextTickQueue := []\<rparr>))"
  by (simp add: await_nextTick_def process_nextTick_def Let_def run_tasks_Resolve split: sum.split)

lemma await_nextTick_result:
  assumes "await_nextTick w = Inr w'"
  shows "run_tasks (nextTickQueue w) (registry w) = Inr (registry w')
     \<and> nextTickQueue w' = [] \<and> services w' = services w"
  using assms
  by (cases "run_tasks (nextTickQueue w) (registry w)") (auto simp: await_nextTick_unfold)

lemma await_nextTick_runs:
  assumes "run_tasks (nextTickQueue w) (registry w) = Inr reg"
  shows "await_nextTick w = Inr (w\<lparr>registry := reg, nextTickQueue := []\<rparr>)"
  using assms by (simp add: await_nextTick_unfold)

lemma apply_class_preserves:
  assumes "apply_class t a w = Inr w'"
  shows "md_metadata (registry w') = md_metadata (registry w)
     \<and> heap (registry w') = heap (registry w)
     \<and> next_address (registry w') = next_address (registry w)
     \<and> nextTickQueue w' = nextTickQueue w
     \<and> handler_maps (registry w') = handler_maps (registry w)"
  using assms
  by (cases a)
    (auto simp: Controller_def Websocket_def ApiTag_def Module_def on_registry_def Let_def
      handler_maps_def split: sum.splits)

lemma apply_class_annotations_preserves:
  assumes "apply_class_annotations t as w = Inr w'"
  shows "md_metadata (registry w') = md_metadata (registry w)
     \<and> heap (registry w') = heap (registry w)
     \<and> next_address (registry w') = next_address (registry w)
     \<and> nextTickQueue w' = nextTickQueue w
     \<and> handler_maps (registry w') = handler_maps (registry w)"
  using assms
proof (induction as arbitrary: w)
  case Nil
  then show ?case by simp
next
  case (Cons a as)
  from Cons.prems obtain w1 where 1: "apply_class t a w = Inr w1"
    and 2: "apply_class_annotations t as w1 = Inr w'"
    by (auto split: sum.splits)
  from Cons.IH [OF 2] apply_class_preserves [OF 1] show ?case by simp
qed

text \<open>The registry after all annotations of the class and one awaited tick.\<close>

lemma published_after_tick:
  fixes d :: ClassDeclaration
  assumes decl: "declare_class d w = Inr w1"
      and earlier: "run_tasks (nextTickQueue w) (registry w1) = Inr reg1"
      and elems: "metadata_elements reg1 (decl_class d) = Inr old"
  shows "\<exists>reg2. run_tasks (nextTickQueue w1) (registry w1) = Inr reg2
     \<and> metadata_elements reg2 (decl_class d)
         = Inr (old @ map (\<lambda>p. route_entry p (registry (declare_members d w))) (applied_props d))"
proof -
  from decl have cls: "apply_class_annotations (decl_class d) (rev (decl_class_annotations d))
      (declare_members d w) = Inr w1"
    by (simp add: declare_class_def)
  note pres = apply_class_annotations_preserves [OF cls]
  have q: "nextTickQueue w1 = nextTickQueue w @ map Publish (applied_props d)"
    using pres by (simp add: queue_declare_members)
  from publish_all [OF elems, of "applied_props d"] obtain reg2 where
    reg2: "run_tasks (map Publish (applied_props d)) reg1 = Inr reg2"
    "metadata_elements reg2 (decl_class d)
       = Inr (old @ map (\<lambda>p. route_entry p reg1) (applied_props d))"
    by (auto simp: class_of_applied_props)
  have "handler_maps reg1 = handler_maps (registry (declare_members d w))"
    using run_tasks_preserves [OF earlier] pres by simp
  then have "map (\<lambda>p. route_entry p reg1) (applied_props d)
      = map (\<lambda>p. route_entry p (registry (declare_members d w))) (applied_props d)"
    by (simp add: route_entry_cong [of reg1 "registry (declare_members d w)"])
  with reg2 earlier show ?thesis
    by (simp add: q run_tasks_append)
qed

text \<open>Class annotations that only tag the class.\<close>

lemma apply_class_annotations_append:
  "apply_class_annotations t (as @ bs) w =
     (case apply_class_annotations t as w of
        Inl e \<Rightarrow> Inl e
      | Inr w' \<Rightarrow> apply_class_annotations t bs w')"
  by (induction as arbitrary: w) (simp_all split: sum.split)

lemma apply_tags:
  assumes "\<forall>a \<in> set as. \<exists>tag. a = ApiTagAnn tag"
  shows "\<exists>w'. apply_class_annotations t as w = Inr w'
     \<and> md_initialize (registry w') = md_initialize (registry w)
     \<and> services w' = services w"
  using assms
proof (induction as arbitrary: w)
  case Nil
  show ?case by simp
next
  case (Cons a as)
  from Cons.prems obtain tag where a: "a = ApiTagAnn tag" by auto
  from Cons.prems have "\<forall>a \<in> set as. \<exists>tag. a = ApiTagAnn tag" by simp
  from Cons.IH [OF this, of "ApiTag tag t w"] show ?case
    by (auto simp: a ApiTag_def on_registry_def)
qed

section \<open>What an initializer registers\<close>

lemma routes_register_routes:
  "routes (register_routes (register_route pfx ctrl tag b a opts) app ms)
     = routes app @ map (route_registration pfx ctrl tag b a opts) ms"
  by (induction ms arbitrary: app) (simp_all add: register_route_def)

lemma initializeController_result:
  assumes "initializeController pfx target app options w = Inr (app', w')"
  shows "await_nextTick w = Inr w'
     \<and> (\<exists>injected ms. inject target (services w') = Inr injected
          \<and> metadata_elements (registry w') target = Inr ms
          \<and> routes app' = routes app @
           map (route_registration pfx (New (cid target) injected)
                  (case Reflect_getMetadata (md_tag (registry w')) target of
                     None \<Rightarrow> ''default'' | Some t \<Rightarrow> t)
                  (case options_auth options of None \<Rightarrow> noop_hook | Some h \<Rightarrow> h)
                  (case options_response options of None \<Rightarrow> noop_hook | Some h \<Rightarrow> h)
                  options) ms)"
proof (cases "await_nextTick w")
  case (Inl e)
  with assms show ?thesis by (simp add: initializeController_def)
next
  case t: (Inr w1)
  show ?thesis
  proof (cases "inject target (services w1)")
    case (Inl e)
    with assms t show ?thesis by (simp add: initializeController_def Let_def)
  next
    case i: (Inr injected)
    show ?thesis
    proof (cases "metadata_elements (registry w1) target")
      case (Inl e)
      with assms t i show ?thesis by (simp add: initializeController_def Let_def)
    next
      case (Inr ms)
      with assms t i show ?thesis
        by (auto simp: initializeController_def Let_def routes_register_routes)
    qed
  qed
qed

lemma initializeController_runs:
  assumes "await_nextTick w = Inr w'"
      and "inject target (services w') = Inr injected"
      and "metadata_elements (registry w') target = Inr ms"
  shows "\<exists>app'. initializeController pfx target app options w = Inr (app', w')"
  using assms by (simp add: initializeController_def Let_def)

lemma lifecycle_without_pre_handler:
  "fst (engine_lifecycle None run c) = [CalledHandler]"
  by (simp add: engine_lifecycle_def)

lemma lifecycle_with_pre_handler:
  "fst (engine_lifecycle (Some h) run c) = [CalledBeforeHandle h]
   \<or> fst (engine_lifecycle (Some h) run c) = [CalledBeforeHandle h, CalledHandler]"
  by (simp add: engine_lifecycle_def split: prod.split sum.split)

section \<open>The sample controller\<close>

lemmas decorator_defs = RawContext_def Body_def Param_def Query_def
  createCustomParameterDecorator_def Public_def Get_def Post_def Put_def Delete_def Patch_def
  route_decorator_def Open_def Close_def Message_def ApiTag_def Module_def Controller_def
  Websocket_def on_registry_def process_nextTick_def

lemma sample_members:
  "declare_members sample_declaration empty_world =
     \<lparr>registry = empty_registry\<lparr>md_body := [1 \<mapsto> (None, 0)], md_public := [1 \<mapsto> True]\<rparr>,
      services = Map.empty,
      nextTickQueue =
        [Publish \<lparr>props_path = ''a'', props_method = ''get'', props_handler = plain_handler,
                  controllerClass = UserController, openapi = None\<rparr>,
         Publish \<lparr>props_path = ''/b'', props_method = ''post'', props_handler = failing_stream,
                  controllerClass = UserController, openapi = None\<rparr>]\<rparr>"
  by (simp add: declare_members_def sample_declaration_def declare_method_def decorator_defs
      empty_world_def empty_registry_def plain_handler_def failing_stream_def default_arg_def)

lemma sample_class: "decl_class sample_declaration = UserController"
  by (simp add: sample_declaration_def)

lemma sample_declared: "declare_class sample_declaration empty_world = Inr sample_world"
  by (simp add: declare_class_def sample_world_def) (simp add: sample_declaration_def)

lemma sample_earlier:
  "run_tasks (nextTickQueue empty_world) (registry sample_world) = Inr (registry sample_world)"
  by (simp add: empty_world_def)

lemma sample_elements: "metadata_elements (registry sample_world) UserController = Inr []"
  by (simp add: sample_world_def sample_members Controller_def on_registry_def Let_def
      metadata_elements_def Reflect_getMetadata_def UserController_def empty_registry_def)

lemma sample_inject: "inject UserController sm = Inr []"
  by (simp add: inject_def UserController_def or_empty_def Reflect_getMetadata_def)

lemma sample_routes: "declared_routes sample_declaration = [(''get'', ''a''), (''post'', ''/b'')]"
  by (simp add: declared_routes_def sample_declaration_def default_arg_def List.map_filter_simps)

lemma sample_applied: "applied_routes sample_declaration = [(''get'', ''a''), (''post'', ''/b'')]"
  by (simp add: applied_routes_def sample_declaration_def default_arg_def List.map_filter_simps)

section \<open>Route registration\<close>




section \<open>What the member annotations leave alone\<close>

lemma published_cong:
  "md_metadata reg' = md_metadata reg \<Longrightarrow> heap reg' = heap reg
     \<Longrightarrow> published reg' c = published reg c"
  by (simp add: published_def split: option.split)

lemma objects_apply_param [simp]:
  "md_metadata (registry (apply_param h a w)) = md_metadata (registry w)"
  "heap (registry (apply_param h a w)) = heap (registry w)"
  by (cases "(h, a)" rule: apply_param.cases;
      simp add: RawContext_def Body_def Param_def Query_def createCustomParameterDecorator_def
        on_registry_def)+

lemma published_apply_param [simp]:
  "published (registry (apply_param h a w)) c = published (registry w) c"
  by (rule published_cong) simp_all

lemma published_lifecycle:
  assumes "\<And>m. obj_routes (f m) = obj_routes m"
  shows "published
           (let (a, reg') = metadata_or empty_object target reg
            in reg'\<lparr>heap := (heap reg')(a := f (heap reg' a)),
                    md_metadata := (md_metadata reg')(target \<mapsto> a)\<rparr>) target
         = published reg target"
  using assms
  by (auto simp: published_def metadata_or_def empty_object_def or_empty_def
      split: option.splits)

lemma published_apply_method [simp]:
  "published (registry (apply_method t h a w)) t = published (registry w) t"
proof (cases a)
  case OpenAnn
  show ?thesis
    using published_lifecycle [of "\<lambda>m. m\<lparr>obj_open := Some h\<rparr>" t "registry w"]
    by (simp add: OpenAnn Open_def on_registry_def)
next
  case CloseAnn
  show ?thesis
    using published_lifecycle [of "\<lambda>m. m\<lparr>obj_close := Some h\<rparr>" t "registry w"]
    by (simp add: CloseAnn Close_def on_registry_def)
next
  case (MessageAnn schema)
  show ?thesis
    using published_lifecycle [of "\<lambda>m. m\<lparr>obj_message := Some h, obj_body := schema\<rparr>" t "registry w"]
    by (simp add: MessageAnn Message_def on_registry_def)
qed (simp_all add: Get_def Post_def Put_def Delete_def Patch_def route_decorator_def Public_def
      on_registry_def process_nextTick_def published_def split: option.split)

lemma published_fold_param [simp]:
  "published (registry (fold (apply_param h) as w)) c = published (registry w) c"
  by (induction as arbitrary: w) simp_all

lemma published_fold_method [simp]:
  "published (registry (fold (apply_method t h) as w)) t = published (registry w) t"
  by (induction as arbitrary: w) simp_all

lemma published_declare_method [simp]:
  "published (registry (declare_method t m w)) t = published (registry w) t"
  by (simp add: declare_method_def)

lemma published_fold_declare_method [simp]:
  "published (registry (fold (declare_method t) ms w)) t = published (registry w) t"
  by (induction ms arbitrary: w) simp_all

lemma published_declare_members:
  "published (registry (declare_members d w)) (decl_class d) = published (registry w) (decl_class d)"
  by (simp add: declare_members_def)

section \<open>Deferred publication\<close>

text \<open>
  Claim C4, as stated, has the publication complete before the class annotation runs. The
  class annotation runs in the synchronous pass that queued the publications: for the sample
  controller it runs in a world where two publications wait in the queue and a lookup of the
  class's metadata finds nothing.
\<close>

theorem class_annotation_runs_before_publication:
  "declared_routes sample_declaration = [(''get'', ''a''), (''post'', ''/b'')]
   \<and> declare_class sample_declaration empty_world
       = Inr (Controller ''users'' UserController (declare_members sample_declaration empty_world))
   \<and> Reflect_getMetadata (md_metadata (registry (declare_members sample_declaration empty_world)))
         UserController = None
   \<and> published (registry (declare_members sample_declaration empty_world)) UserController = []
   \<and> length (nextTickQueue (declare_members sample_declaration empty_world)) = 2"
proof (intro conjI)
  show "declared_routes sample_declaration = [(''get'', ''a''), (''post'', ''/b'')]"
    by (rule sample_routes)
  show "declare_class sample_declaration empty_world
       = Inr (Controller ''users'' UserController (declare_members sample_declaration empty_world))"
    using sample_declared by (simp add: sample_world_def)
  show none: "Reflect_getMetadata (md_metadata (registry (declare_members sample_declaration empty_world)))
         UserController = None"
    by (simp add: sample_members empty_registry_def Reflect_getMetadata_def UserController_def)
  show "published (registry (declare_members sample_declaration empty_world)) UserController = []"
    by (simp add: published_def none)
  show "length (nextTickQueue (declare_members sample_declaration empty_world)) = 2"
    by (simp add: sample_members)
qed

text \<open>
  Claim C4, amended. The annotations of the parameters and methods of a class publish
  nothing: they queue one publication per route annotation for the next tick, and the routes
  that a lookup from the class finds published are the same before the declaration, when the
  class annotations run and after they have run. An initializer of the class first awaits a
  tick of its own, queued behind the publications. When the publications queued before those
  of the class succeed and the lookup then finds nothing or an array (with the elements
  \<open>old\<close>), the tick succeeds and empties the queue, and the initializer reads the metadata
  after every route of the class has been published behind \<open>old\<close>, in the order of
  application, each route carrying the bindings, public flag and extractors that the registry
  held for its handler when all member annotations of the class had run.
\<close>

theorem deferred_publication_before_initializer:
  fixes d :: ClassDeclaration
  assumes decl: "declare_class d w = Inr w1"
      and earlier: "run_tasks (nextTickQueue w) (registry w1) = Inr reg1"
      and elems: "metadata_elements reg1 (decl_class d) = Inr old"
  shows "nextTickQueue (declare_members d w) = nextTickQueue w @ map Publish (applied_props d)
     \<and> published (registry (declare_members d w)) (decl_class d)
         = published (registry w) (decl_class d)
     \<and> nextTickQueue w1 = nextTickQueue (declare_members d w)
     \<and> published (registry w1) (decl_class d) = published (registry w) (decl_class d)
     \<and> (\<exists>w2 ms. await_nextTick w1 = Inr w2
          \<and> nextTickQueue w2 = []
          \<and> metadata_elements (registry w2) (decl_class d) = Inr (old @ ms)
          \<and> map signature ms = map (\<lambda>(m, p). (m, with_leading_slash p)) (applied_routes d)
          \<and> map handler ms = map props_handler (applied_props d)
          \<and> (\<forall>m \<in> set ms. assembled_from (registry (declare_members d w)) m)
          \<and> (\<forall>pfx app options app' w'.
                initializeController pfx (decl_class d) app options w1 = Inr (app', w') \<longrightarrow>
                w' = w2
                \<and> length (routes app')
                    = length (routes app) + length old + length (declared_routes d)))"
proof -
  let ?cls = "decl_class d"
  let ?wm = "declare_members d w"
  let ?ms = "map (\<lambda>p. route_entry p (registry ?wm)) (applied_props d)"
  from decl have cls: "apply_class_annotations ?cls (rev (decl_class_annotations d)) ?wm = Inr w1"
    by (simp add: declare_class_def)
  note pres = apply_class_annotations_preserves [OF cls]
  have 1: "nextTickQueue ?wm = nextTickQueue w @ map Publish (applied_props d)"
    by (rule queue_declare_members)
  have 2: "published (registry ?wm) ?cls = published (registry w) ?cls"
    by (rule published_declare_members)
  have 3: "nextTickQueue w1 = nextTickQueue ?wm"
    using pres by simp
  have 4: "published (registry w1) ?cls = published (registry w) ?cls"
    using published_cong [of "registry w1" "registry ?wm" ?cls] pres 2 by simp
  from published_after_tick [OF decl earlier elems] obtain reg2 where
    reg2: "run_tasks (nextTickQueue w1) (registry w1) = Inr reg2"
    "metadata_elements reg2 ?cls = Inr (old @ ?ms)"
    by blast
  let ?w2 = "w1\<lparr>registry := reg2, nextTickQueue := []\<rparr>"
  have tick: "await_nextTick w1 = Inr ?w2"
    using reg2(1) by (rule await_nextTick_runs)
  have q: "nextTickQueue ?w2 = []"
    by simp
  have el: "metadata_elements (registry ?w2) ?cls = Inr (old @ ?ms)"
    using reg2(2) by simp
  have sig: "map signature ?ms = map (\<lambda>(m, p). (m, with_leading_slash p)) (applied_routes d)"
    by (simp add: comp_def published_signature_routes)
  have hs: "map handler ?ms = map props_handler (applied_props d)"
    by (simp add: comp_def)
  have asm: "\<forall>m \<in> set ?ms. assembled_from (registry ?wm) m"
    by auto
  have len: "length ?ms = length (declared_routes d)"
    using sig length_applied_routes [of d] by (metis length_map)
  have ini: "\<forall>pfx app options app' w'.
      initializeController pfx ?cls app options w1 = Inr (app', w') \<longrightarrow>
      w' = ?w2 \<and> length (routes app') = length (routes app) + length old + length (declared_routes d)"
  proof (intro allI impI)
    fix pfx app options app' w'
    assume run: "initializeController pfx ?cls app options w1 = Inr (app', w')"
    from initializeController_result [OF run] tick have w': "w' = ?w2"
      by simp
    from initializeController_result [OF run] el w' len
    show "w' = ?w2 \<and> length (routes app') = length (routes app) + length old + length (declared_routes d)"
      by auto
  qed
  have 5: "\<exists>w2 ms. await_nextTick w1 = Inr w2
          \<and> nextTickQueue w2 = []
          \<and> metadata_elements (registry w2) ?cls = Inr (old @ ms)
          \<and> map signature ms = map (\<lambda>(m, p). (m, with_leading_slash p)) (applied_routes d)
          \<and> map handler ms = map props_handler (applied_props d)
          \<and> (\<forall>m \<in> set ms. assembled_from (registry ?wm) m)
          \<and> (\<forall>pfx app options app' w'.
                initializeController pfx ?cls app options w1 = Inr (app', w') \<longrightarrow>
                w' = w2
                \<and> length (routes app')
                    = length (routes app) + length old + length (declared_routes d))"
    apply (rule exI [of _ ?w2], rule exI [of _ ?ms])
    apply (intro conjI)
          apply (rule tick q el sig hs asm ini)+
    done
  from 1 2 3 4 5 show ?thesis
    by (intro conjI)
qed

theorem deferred_publication_before_initializer_witness:
  "declare_class sample_declaration empty_world = Inr sample_world
   \<and> run_tasks (nextTickQueue empty_world) (registry sample_world) = Inr (registry sample_world)
   \<and> metadata_elements (registry sample_world) (decl_class sample_declaration) = Inr []
   \<and> published (registry sample_world) UserController = []
   \<and> (\<exists>w2 ms. await_nextTick sample_world = Inr w2
         \<and> metadata_elements (registry w2) UserController = Inr ms
         \<and> map signature ms = [(''get'', ''/a''), (''post'', ''/b'')]
         \<and> map isPublic ms = [True, False])"
proof -
  have elems: "metadata_elements (registry sample_world) (decl_class sample_declaration) = Inr []"
    by (simp add: sample_class sample_elements)
  have p0: "published (registry empty_world) UserController = []"
    by (simp add: published_def empty_world_def empty_registry_def Reflect_getMetadata_def
        UserController_def)
  have pub: "md_public (registry (declare_members sample_declaration empty_world)) 1 = Some True"
    "md_public (registry (declare_members sample_declaration empty_world)) 2 = None"
    by (simp_all add: sample_members empty_registry_def)
  from deferred_publication_before_initializer [OF sample_declared sample_earlier elems]
  obtain w2 ms where
    p: "published (registry sample_world) UserController = published (registry empty_world) UserController"
    and t: "await_nextTick sample_world = Inr w2"
    and e: "metadata_elements (registry w2) UserController = Inr ms"
    and s: "map signature ms = map (\<lambda>(m, p). (m, with_leading_slash p)) (applied_routes sample_declaration)"
    and h: "map handler ms = map props_handler (applied_props sample_declaration)"
    and a: "\<forall>m \<in> set ms. assembled_from (registry (declare_members sample_declaration empty_world)) m"
    by (auto simp: sample_class)
  have s': "map signature ms = [(''get'', ''/a''), (''post'', ''/b'')]"
    using s by (simp add: sample_applied with_leading_slash_def startsWith_slash_def)
  have h': "map handler ms = [plain_handler, failing_stream]"
    using h by (simp add: applied_props_def sample_declaration_def List.map_filter_simps)
  from h' obtain m1 m2 where ms: "ms = [m1, m2]" "handler m1 = plain_handler"
    "handler m2 = failing_stream"
    by auto
  from a ms pub have "isPublic m1" "\<not> isPublic m2"
    by (simp_all add: assembled_from_def plain_handler_def failing_stream_def)
  then have i: "map isPublic ms = [True, False]"
    by (simp add: ms)
  have "\<exists>w2 ms. await_nextTick sample_world = Inr w2
         \<and> metadata_elements (registry w2) UserController = Inr ms
         \<and> map signature ms = [(''get'', ''/a''), (''post'', ''/b'')]
         \<and> map isPublic ms = [True, False]"
    by (intro exI [of _ w2] exI [of _ ms] conjI) (rule t e s' i)+
  with sample_declared sample_earlier elems p p0 show ?thesis
    by simp
qed

lemma initializeWebsocket_result:
  assumes "initializeWebsocket p pub target app options w = Inr (app', w')"
  shows "\<exists>r. sockets app' = sockets app @ [r] \<and> ws_path r = p
     \<and> ws_beforeHandle r = (if pub then None else options_auth options)"
proof (cases "await_nextTick w")
  case (Inl e)
  with assms show ?thesis by (simp add: initializeWebsocket_def)
next
  case t: (Inr w1)
  show ?thesis
  proof (cases "inject target (services w1)")
    case (Inl e)
    with assms t show ?thesis by (simp add: initializeWebsocket_def)
  next
    case (Inr injected)
    with assms t show ?thesis
      by (auto simp: initializeWebsocket_def Let_def)
  qed
qed

lemma initializeWebsocket_runs:
  assumes "await_nextTick w = Inr w'" and "inject target (services w') = Inr injected"
  shows "\<exists>app'. initializeWebsocket p pub target app options w = Inr (app', w')"
  using assms by (simp add: initializeWebsocket_def Let_def)

section \<open>Public routes and the authentication hook\<close>

text \<open>
  Claim C2. For every route that the initializer of a controller registers: when the entry is
  public, which it is exactly when \<^verbatim>\<open>Public\<close> marked its handler, no pre-handler is
  installed and a request reaches the handler without any pre-handler being called; when it
  is not public and an authentication hook is configured, that hook is the installed
  pre-handler and every request calls it first, the handler being called after it or not at
  all. For a socket class: the initializer that \<^verbatim>\<open>Websocket(path, options)\<close> stores for the
  class returns whenever the tick and the injection succeed, and registers one socket under
  the path; when \<^verbatim>\<open>options.public\<close> is true no pre-handler is installed on it, and
  otherwise a configured authentication hook is its pre-handler. The order of the calls is
  the engine's lifecycle.
\<close>

theorem public_flag_decides_pre_handler:
  "(\<forall>app' w'. initializeController pfx target app options w = Inr (app', w') \<longrightarrow>
      (\<exists>ms. metadata_elements (registry w') target = Inr ms
         \<and> length (routes app') = length (routes app) + length ms
         \<and> (\<forall>k < length ms.
               (isPublic (ms ! k) \<longrightarrow>
                  route_beforeHandle (routes app' ! (length (routes app) + k)) = None
                  \<and> (\<forall>c. fst (engine_request (routes app' ! (length (routes app) + k)) c)
                         = [CalledHandler]))
             \<and> (\<not> isPublic (ms ! k) \<longrightarrow>
                  (\<forall>a. options_auth options = Some a \<longrightarrow>
                     route_beforeHandle (routes app' ! (length (routes app) + k)) = Some a
                     \<and> (\<forall>c. fst (engine_request (routes app' ! (length (routes app) + k)) c)
                              \<in> {[CalledBeforeHandle a], [CalledBeforeHandle a, CalledHandler]}))))))
   \<and> md_public (registry (Public h w0)) (hid h) = Some True
   \<and> (isPublic (route_entry props reg) \<longleftrightarrow> md_public reg (hid (props_handler props)) = Some True)
   \<and> (\<exists>init.
         Reflect_getMetadata (md_initialize (registry (Websocket p public_option socket w0))) socket
           = Some init
       \<and> (\<forall>app2 w2 w3 injected.
             await_nextTick w2 = Inr w3 \<longrightarrow> inject socket (services w3) = Inr injected \<longrightarrow>
             (\<exists>app'. run_initializer init app2 options w2 = Inr (app', w3)))
       \<and> (\<forall>app2 w2 app' w'. run_initializer init app2 options w2 = Inr (app', w') \<longrightarrow>
             (\<exists>r. sockets app' = sockets app2 @ [r]
                \<and> ws_path r = p
                \<and> (public_option = Some True \<longrightarrow>
                      ws_beforeHandle r = None
                      \<and> (\<forall>c. fst (engine_upgrade r c) = [CalledHandler]))
                \<and> (public_option \<noteq> Some True \<longrightarrow>
                      (\<forall>a. options_auth options = Some a \<longrightarrow>
                         ws_beforeHandle r = Some a
                         \<and> (\<forall>c. fst (engine_upgrade r c)
                                  \<in> {[CalledBeforeHandle a], [CalledBeforeHandle a, CalledHandler]}))))))"
proof (intro conjI)
  show "\<forall>app' w'. initializeController pfx target app options w = Inr (app', w') \<longrightarrow>
      (\<exists>ms. metadata_elements (registry w') target = Inr ms
         \<and> length (routes app') = length (routes app) + length ms
         \<and> (\<forall>k < length ms.
               (isPublic (ms ! k) \<longrightarrow>
                  route_beforeHandle (routes app' ! (length (routes app) + k)) = None
                  \<and> (\<forall>c. fst (engine_request (routes app' ! (length (routes app) + k)) c)
                         = [CalledHandler]))
             \<and> (\<not> isPublic (ms ! k) \<longrightarrow>
                  (\<forall>a. options_auth options = Some a \<longrightarrow>
                     route_beforeHandle (routes app' ! (length (routes app) + k)) = Some a
                     \<and> (\<forall>c. fst (engine_request (routes app' ! (length (routes app) + k)) c)
                              \<in> {[CalledBeforeHandle a], [CalledBeforeHandle a, CalledHandler]})))))"
  proof (intro allI impI)
    fix app' w'
    assume init: "initializeController pfx target app options w = Inr (app', w')"
    let ?b = "case options_auth options of None \<Rightarrow> noop_hook | Some h \<Rightarrow> h"
    from initializeController_result [OF init] obtain ms ctrl tag a where
      ms: "metadata_elements (registry w') target = Inr ms"
      and r: "routes app' = routes app @ map (route_registration pfx ctrl tag ?b a options) ms"
      by blast
    have len: "length (routes app') = length (routes app) + length ms"
      by (simp add: r)
    have each: "(isPublic (ms ! k) \<longrightarrow>
                  route_beforeHandle (routes app' ! (length (routes app) + k)) = None
                  \<and> (\<forall>c. fst (engine_request (routes app' ! (length (routes app) + k)) c)
                         = [CalledHandler]))
             \<and> (\<not> isPublic (ms ! k) \<longrightarrow>
                  (\<forall>a. options_auth options = Some a \<longrightarrow>
                     route_beforeHandle (routes app' ! (length (routes app) + k)) = Some a
                     \<and> (\<forall>c. fst (engine_request (routes app' ! (length (routes app) + k)) c)
                              \<in> {[CalledBeforeHandle a], [CalledBeforeHandle a, CalledHandler]})))"
      if k: "k < length ms" for k
    proof -
      have nth: "routes app' ! (length (routes app) + k)
          = route_registration pfx ctrl tag ?b a options (ms ! k)"
        using k by (simp add: r nth_append)
      have 1: "route_beforeHandle (routes app' ! (length (routes app) + k)) = None
          \<and> (\<forall>c. fst (engine_request (routes app' ! (length (routes app) + k)) c) = [CalledHandler])"
        if "isPublic (ms ! k)"
        using that
        by (simp add: nth engine_request_def route_registration_def lifecycle_without_pre_handler)
      have 2: "route_beforeHandle (routes app' ! (length (routes app) + k)) = Some h
          \<and> (\<forall>c. fst (engine_request (routes app' ! (length (routes app) + k)) c)
                \<in> {[CalledBeforeHandle h], [CalledBeforeHandle h, CalledHandler]})"
        if "\<not> isPublic (ms ! k)" "options_auth options = Some h" for h
        using that lifecycle_with_pre_handler [of h]
        by (simp add: nth engine_request_def route_registration_def)
      from 1 2 show ?thesis by blast
    qed
    from ms len each show "\<exists>ms. metadata_elements (registry w') target = Inr ms
         \<and> length (routes app') = length (routes app) + length ms
         \<and> (\<forall>k < length ms.
               (isPublic (ms ! k) \<longrightarrow>
                  route_beforeHandle (routes app' ! (length (routes app) + k)) = None
                  \<and> (\<forall>c. fst (engine_request (routes app' ! (length (routes app) + k)) c)
                         = [CalledHandler]))
             \<and> (\<not> isPublic (ms ! k) \<longrightarrow>
                  (\<forall>a. options_auth options = Some a \<longrightarrow>
                     route_beforeHandle (routes app' ! (length (routes app) + k)) = Some a
                     \<and> (\<forall>c. fst (engine_request (routes app' ! (length (routes app) + k)) c)
                              \<in> {[CalledBeforeHandle a], [CalledBeforeHandle a, CalledHandler]}))))"
      by (intro exI [of _ ms] conjI allI impI) auto
  qed
next
  show "md_public (registry (Public h w0)) (hid h) = Some True"
    by (simp add: Public_def on_registry_def)
next
  show "isPublic (route_entry props reg) \<longleftrightarrow> md_public reg (hid (props_handler props)) = Some True"
    by (simp add: route_entry_def Let_def)
next
  let ?pub = "public_option = Some True"
  let ?init = "WebsocketInitializer p ?pub socket"
  have stored: "Reflect_getMetadata (md_initialize (registry (Websocket p public_option socket w0)))
      socket = Some ?init"
    by (rule getMetadata_own) (simp add: Websocket_def on_registry_def Let_def)
  have runs: "\<forall>app2 w2 w3 injected.
      await_nextTick w2 = Inr w3 \<longrightarrow> inject socket (services w3) = Inr injected \<longrightarrow>
      (\<exists>app'. run_initializer ?init app2 options w2 = Inr (app', w3))"
    using initializeWebsocket_runs [of _ _ socket _ p ?pub]
    by (simp add: run_initializer_def)
  have result: "\<forall>app2 w2 app' w'. run_initializer ?init app2 options w2 = Inr (app', w') \<longrightarrow>
      (\<exists>r. sockets app' = sockets app2 @ [r]
         \<and> ws_path r = p
         \<and> (?pub \<longrightarrow> ws_beforeHandle r = None \<and> (\<forall>c. fst (engine_upgrade r c) = [CalledHandler]))
         \<and> (\<not> ?pub \<longrightarrow>
               (\<forall>a. options_auth options = Some a \<longrightarrow>
                  ws_beforeHandle r = Some a
                  \<and> (\<forall>c. fst (engine_upgrade r c)
                           \<in> {[CalledBeforeHandle a], [CalledBeforeHandle a, CalledHandler]}))))"
  proof (intro allI impI)
    fix app2 w2 app' w'
    assume "run_initializer ?init app2 options w2 = Inr (app', w')"
    then have "initializeWebsocket p ?pub socket app2 options w2 = Inr (app', w')"
      by (simp add: run_initializer_def)
    from initializeWebsocket_result [OF this] obtain r where
      r: "sockets app' = sockets app2 @ [r]" "ws_path r = p"
        "ws_beforeHandle r = (if ?pub then None else options_auth options)"
      by blast
    have 1: "ws_beforeHandle r = None \<and> (\<forall>c. fst (engine_upgrade r c) = [CalledHandler])" if ?pub
      using that by (simp add: r engine_upgrade_def lifecycle_without_pre_handler)
    have 2: "ws_beforeHandle r = Some a
        \<and> (\<forall>c. fst (engine_upgrade r c) \<in> {[CalledBeforeHandle a], [CalledBeforeHandle a, CalledHandler]})"
      if "\<not> ?pub" "options_auth options = Some a" for a
      using that lifecycle_with_pre_handler [of a]
      by (simp add: r engine_upgrade_def)
    from r(1,2) 1 2 show "\<exists>r. sockets app' = sockets app2 @ [r]
         \<and> ws_path r = p
         \<and> (?pub \<longrightarrow> ws_beforeHandle r = None \<and> (\<forall>c. fst (engine_upgrade r c) = [CalledHandler]))
         \<and> (\<not> ?pub \<longrightarrow>
               (\<forall>a. options_auth options = Some a \<longrightarrow>
                  ws_beforeHandle r = Some a
                  \<and> (\<forall>c. fst (engine_upgrade r c)
                           \<in> {[CalledBeforeHandle a], [CalledBeforeHandle a, CalledHandler]})))"
      by blast
  qed
  from stored runs result show "\<exists>init.
         Reflect_getMetadata (md_initialize (registry (Websocket p public_option socket w0))) socket
           = Some init
       \<and> (\<forall>app2 w2 w3 injected.
             await_nextTick w2 = Inr w3 \<longrightarrow> inject socket (services w3) = Inr injected \<longrightarrow>
             (\<exists>app'. run_initializer init app2 options w2 = Inr (app', w3)))
       \<and> (\<forall>app2 w2 app' w'. run_initializer init app2 options w2 = Inr (app', w') \<longrightarrow>
             (\<exists>r. sockets app' = sockets app2 @ [r]
                \<and> ws_path r = p
                \<and> (public_option = Some True \<longrightarrow>
                      ws_beforeHandle r = None
                      \<and> (\<forall>c. fst (engine_upgrade r c) = [CalledHandler]))
                \<and> (public_option \<noteq> Some True \<longrightarrow>
                      (\<forall>a. options_auth options = Some a \<longrightarrow>
                         ws_beforeHandle r = Some a
                         \<and> (\<forall>c. fst (engine_upgrade r c)
                                  \<in> {[CalledBeforeHandle a], [CalledBeforeHandle a, CalledHandler]})))))"
    by (intro exI [of _ ?init] conjI)
qed

lemma sample_tick:
  "\<exists>w2 m1 m2. await_nextTick sample_world = Inr w2
     \<and> services w2 = Map.empty
     \<and> metadata_elements (registry w2) UserController = Inr [m1, m2]
     \<and> isPublic m1 \<and> \<not> isPublic m2"
proof -
  let ?reg = "registry (declare_members sample_declaration empty_world)"
  have elems: "metadata_elements (registry sample_world) (decl_class sample_declaration) = Inr []"
    by (simp add: sample_class sample_elements)
  have props: "applied_props sample_declaration =
      [\<lparr>props_path = ''a'', props_method = ''get'', props_handler = plain_handler,
        controllerClass = UserController, openapi = None\<rparr>,
       \<lparr>props_path = ''/b'', props_method = ''post'', props_handler = failing_stream,
        controllerClass = UserController, openapi = None\<rparr>]"
    by (simp add: applied_props_def sample_declaration_def List.map_filter_simps default_arg_def)
  have pub: "md_public ?reg (hid plain_handler) = Some True"
    "md_public ?reg (hid failing_stream) = None"
    by (simp_all add: sample_members empty_registry_def plain_handler_def failing_stream_def)
  from published_after_tick [OF sample_declared sample_earlier elems] obtain reg2 where
    reg2: "run_tasks (nextTickQueue sample_world) (registry sample_world) = Inr reg2"
    "metadata_elements reg2 UserController
       = Inr (map (\<lambda>p. route_entry p ?reg) (applied_props sample_declaration))"
    by (auto simp: sample_class)
  let ?w2 = "sample_world\<lparr>registry := reg2, nextTickQueue := []\<rparr>"
  have tick: "await_nextTick sample_world = Inr ?w2"
    using reg2(1) by (rule await_nextTick_runs)
  have srv: "services ?w2 = Map.empty"
    by (simp add: sample_world_def sample_members Controller_def Let_def)
  have el: "metadata_elements (registry ?w2) UserController
      = Inr [route_entry (applied_props sample_declaration ! 0) ?reg,
             route_entry (applied_props sample_declaration ! 1) ?reg]"
    using reg2(2) by (simp add: props)
  have p1: "isPublic (route_entry (applied_props sample_declaration ! 0) ?reg)"
    by (simp add: props route_entry_def Let_def pub)
  have p2: "\<not> isPublic (route_entry (applied_props sample_declaration ! 1) ?reg)"
    by (simp add: props route_entry_def Let_def pub)
  show ?thesis
    by (intro exI [of _ ?w2] exI conjI) (rule tick srv el p1 p2)+
qed

lemma socket_tick:
  "await_nextTick (socket_world po) = Inr (socket_world po)"
proof -
  have q: "nextTickQueue (socket_world po) = []"
    by (simp add: socket_world_def socket_declaration_def declare_members_def declare_method_def
        decorator_defs Let_def empty_world_def split: prod.split)
  then have "run_tasks (nextTickQueue (socket_world po)) (registry (socket_world po))
      = Inr (registry (socket_world po))"
    by simp
  from await_nextTick_runs [OF this] q show ?thesis
    by simp
qed

lemma socket_inject: "inject ChatSocket sm = Inr []"
  by (simp add: inject_def ChatSocket_def or_empty_def Reflect_getMetadata_def)

theorem public_flag_decides_pre_handler_witness:
  "(\<exists>app' w'. initializeController ''/users'' UserController empty_app sample_options sample_world
        = Inr (app', w')
      \<and> length (routes app') = 2
      \<and> route_beforeHandle (routes app' ! 0) = None
      \<and> fst (engine_request (routes app' ! 0) sample_context) = [CalledHandler]
      \<and> route_beforeHandle (routes app' ! 1) = Some (onHandleAuthentication None)
      \<and> fst (engine_request (routes app' ! 1) sample_context)
          \<in> {[CalledBeforeHandle (onHandleAuthentication None)],
              [CalledBeforeHandle (onHandleAuthentication None), CalledHandler]})
   \<and> (\<exists>init app' w' r.
         Reflect_getMetadata (md_initialize (registry (socket_world (Some True)))) ChatSocket
           = Some init
       \<and> run_initializer init empty_app sample_options (socket_world (Some True)) = Inr (app', w')
       \<and> sockets app' = [r] \<and> ws_beforeHandle r = None
       \<and> fst (engine_upgrade r sample_context) = [CalledHandler])
   \<and> (\<exists>init app' w' r.
         Reflect_getMetadata (md_initialize (registry (socket_world None))) ChatSocket = Some init
       \<and> run_initializer init empty_app sample_options (socket_world None) = Inr (app', w')
       \<and> sockets app' = [r] \<and> ws_beforeHandle r = Some (onHandleAuthentication None))"
proof -
  let ?hook = "onHandleAuthentication None"
  have auth: "options_auth sample_options = Some ?hook"
    by (simp add: options_auth_def sample_options_def)
  from sample_tick obtain w2 m1 m2 where
    tick: "await_nextTick sample_world = Inr w2"
    and srv: "services w2 = Map.empty"
    and ms: "metadata_elements (registry w2) UserController = Inr [m1, m2]"
    and pub: "isPublic m1" "\<not> isPublic m2"
    by blast
  have inj: "inject UserController (services w2) = Inr []"
    by (rule sample_inject)
  from initializeController_runs [OF tick inj ms, of "''/users''" empty_app sample_options]
  obtain app' where run:
    "initializeController ''/users'' UserController empty_app sample_options sample_world
       = Inr (app', w2)"
    by blast
  note t = public_flag_decides_pre_handler
    [of "''/users''" UserController empty_app sample_options sample_world]
  from t run ms have len: "length (routes app') = 2"
    and each: "\<And>k. k < 2 \<Longrightarrow>
            (isPublic ([m1, m2] ! k) \<longrightarrow>
               route_beforeHandle (routes app' ! k) = None
               \<and> (\<forall>c. fst (engine_request (routes app' ! k) c) = [CalledHandler]))
          \<and> (\<not> isPublic ([m1, m2] ! k) \<longrightarrow>
               (\<forall>a. options_auth sample_options = Some a \<longrightarrow>
                  route_beforeHandle (routes app' ! k) = Some a
                  \<and> (\<forall>c. fst (engine_request (routes app' ! k) c)
                           \<in> {[CalledBeforeHandle a], [CalledBeforeHandle a, CalledHandler]})))"
    by (simp_all add: empty_app_def)
  from each [of 0] pub(1) have r0: "route_beforeHandle (routes app' ! 0) = None"
    "fst (engine_request (routes app' ! 0) sample_context) = [CalledHandler]"
    by simp_all
  from each [of 1] pub(2) auth have r1: "route_beforeHandle (routes app' ! 1) = Some ?hook"
    "fst (engine_request (routes app' ! 1) sample_context)
       \<in> {[CalledBeforeHandle ?hook], [CalledBeforeHandle ?hook, CalledHandler]}"
    by simp_all
  have http: "\<exists>app' w'. initializeController ''/users'' UserController empty_app sample_options sample_world
        = Inr (app', w')
      \<and> length (routes app') = 2
      \<and> route_beforeHandle (routes app' ! 0) = None
      \<and> fst (engine_request (routes app' ! 0) sample_context) = [CalledHandler]
      \<and> route_beforeHandle (routes app' ! 1) = Some ?hook
      \<and> fst (engine_request (routes app' ! 1) sample_context)
          \<in> {[CalledBeforeHandle ?hook], [CalledBeforeHandle ?hook, CalledHandler]}"
    by (intro exI [of _ app'] exI [of _ w2] conjI) (rule run len r0 r1)+
  have ws: "\<exists>init app' w' r.
         Reflect_getMetadata (md_initialize (registry (socket_world po))) ChatSocket = Some init
       \<and> run_initializer init empty_app sample_options (socket_world po) = Inr (app', w')
       \<and> sockets app' = [r]
       \<and> (po = Some True \<longrightarrow> ws_beforeHandle r = None
             \<and> fst (engine_upgrade r sample_context) = [CalledHandler])
       \<and> (po \<noteq> Some True \<longrightarrow> ws_beforeHandle r = Some ?hook)" for po
  proof -
    let ?w0 = "declare_members (socket_declaration po) empty_world"
    from public_flag_decides_pre_handler
      [of "''/users''" UserController empty_app sample_options sample_world plain_handler ?w0
        undefined undefined "''/ws''" po ChatSocket]
    obtain init where
      stored: "Reflect_getMetadata (md_initialize (registry (socket_world po))) ChatSocket = Some init"
      and runs: "\<And>app2 w2 w3 injected. await_nextTick w2 = Inr w3 \<Longrightarrow>
             inject ChatSocket (services w3) = Inr injected \<Longrightarrow>
             \<exists>app'. run_initializer init app2 sample_options w2 = Inr (app', w3)"
      and result: "\<And>app2 w2 app' w'. run_initializer init app2 sample_options w2 = Inr (app', w') \<Longrightarrow>
             \<exists>r. sockets app' = sockets app2 @ [r]
                \<and> ws_path r = ''/ws''
                \<and> (po = Some True \<longrightarrow>
                      ws_beforeHandle r = None
                      \<and> (\<forall>c. fst (engine_upgrade r c) = [CalledHandler]))
                \<and> (po \<noteq> Some True \<longrightarrow>
                      (\<forall>a. options_auth sample_options = Some a \<longrightarrow>
                         ws_beforeHandle r = Some a
                         \<and> (\<forall>c. fst (engine_upgrade r c)
                                  \<in> {[CalledBeforeHandle a], [CalledBeforeHandle a, CalledHandler]})))"
      unfolding socket_world_def by blast
    from runs [OF socket_tick socket_inject, of empty_app] obtain app' where
      run: "run_initializer init empty_app sample_options (socket_world po)
          = Inr (app', socket_world po)"
      by blast
    from result [OF run] auth obtain r where
      r: "sockets app' = [r]"
      "po = Some True \<longrightarrow> ws_beforeHandle r = None
         \<and> fst (engine_upgrade r sample_context) = [CalledHandler]"
      "po \<noteq> Some True \<longrightarrow> ws_beforeHandle r = Some ?hook"
      by (auto simp: empty_app_def)
    show ?thesis
      by (intro exI [of _ init] exI [of _ app'] exI [of _ "socket_world po"] exI [of _ r] conjI)
        (rule stored run r)+
  qed
  from http ws [of "Some True"] ws [of None] show ?thesis
    by simp
qed

section \<open>The order of the custom extractors\<close>

lemma customs_apply_param:
  "or_empty (md_customDecorators (registry (apply_param h a w)) (hid h))
     = or_empty (md_customDecorators (registry w) (hid h))
       @ (case extractor_of a of None \<Rightarrow> [] | Some x \<Rightarrow> [x])"
  by (cases "(h, a)" rule: apply_param.cases)
    (simp_all add: RawContext_def Body_def Param_def Query_def createCustomParameterDecorator_def
      on_registry_def or_empty_def)

lemma customs_fold_param:
  "or_empty (md_customDecorators (registry (fold (apply_param h) as w)) (hid h))
     = or_empty (md_customDecorators (registry w) (hid h)) @ List.map_filter extractor_of as"
proof (induction as arbitrary: w)
  case Nil
  show ?case by (simp add: List.map_filter_simps)
next
  case (Cons a as)
  show ?case
    by (simp add: Cons.IH customs_apply_param List.map_filter_simps split: option.split)
qed

lemma customs_apply_method [simp]:
  "md_customDecorators (registry (apply_method t h a w)) = md_customDecorators (registry w)"
  by (cases a)
    (simp_all add: Get_def Post_def Put_def Delete_def Patch_def route_decorator_def Public_def
      Open_def Close_def Message_def on_registry_def process_nextTick_def metadata_or_def
      split: option.split)

lemma customs_fold_method [simp]:
  "md_customDecorators (registry (fold (apply_method t h) as w)) = md_customDecorators (registry w)"
  by (induction as arbitrary: w) simp_all

lemma customs_declare_method:
  "or_empty (md_customDecorators (registry (declare_method t m w)) (hid (decl_handler m)))
     = or_empty (md_customDecorators (registry w) (hid (decl_handler m)))
       @ rev (declared_extractors m)"
  by (simp add: declare_method_def customs_fold_param declared_extractors_def map_filter_rev)

section \<open>Colliding parameter indices\<close>

text \<open>
  Claim C9, as stated, has the custom extractors write in the order of their declaration, so
  that of two extractors on one parameter the one declared last would win. The decorators of
  the parameters of a method are applied from the last to the first, and the extractors run
  in the order of application: where the extractor that gives 7 is declared to the left of
  the one that gives 8 on the same parameter, the handler receives 7.
\<close>

theorem first_declared_extractor_wins:
  "map (\<lambda>x. cd_handler x sample_context)
       (declared_extractors (hd (decl_methods extractor_declaration)))
     = [Inr (JNum 7), Inr (JNum 8)]
   \<and> map cd_index (declared_extractors (hd (decl_methods extractor_declaration))) = [0, 0]
   \<and> responses (run_program [extractor_declaration, module_declaration [ExtractorController]]
        AppModule None empty_app empty_world) sample_context
       = Inr [Responded (JNum 7)]"
  by code_simp

text \<open>
  Claim C9, amended. Parameter extraction performs its writes in one fixed order: raw
  context, body, query, path segment, then the custom extractors in the order of the
  metadata's list. The argument at every index is the value of the last write to that index,
  so a later binding silently replaces an earlier one at the same index, and an index that a
  custom extractor claims always holds a custom extractor's value, whatever raw-context,
  body, query or path-segment binding claims it too. Colliding indices raise nothing:
  extraction returns an array whenever the extractors return. The metadata's list is the
  handler's list in the registry, to which every custom parameter decorator appends when it
  is applied; the decorators of a method's parameters are applied from the last to the first,
  so the list holds the declared extractors in reverse, and of two extractors declared on one
  parameter the one declared first writes last.
\<close>

theorem getParameters_writes_in_application_order:
  assumes ret: "all_return (customDecorators m) c vs"
  shows "(\<exists>args. getParameters m c = Inr args
       \<and> (\<forall>i. arr_get args i = last_write (binding_writes m c vs) i)
       \<and> (\<forall>i \<in> cd_index ` set (customDecorators m).
             \<exists>k < length (customDecorators m).
               cd_index (customDecorators m ! k) = i \<and> arr_get args i = Some (Val (vs ! k))))
     \<and> customDecorators (route_entry props reg)
         = or_empty (md_customDecorators reg (hid (props_handler props)))
     \<and> or_empty (md_customDecorators (registry (declare_method target md w)) (hid (decl_handler md)))
         = or_empty (md_customDecorators (registry w) (hid (decl_handler md)))
           @ rev (declared_extractors md)"
proof (intro conjI)
  let ?ws = "binding_writes m c vs"
  let ?args = "apply_writes [] ?ws"
  have len: "length vs = length (customDecorators m)"
    using ret by (rule all_return_length)
  have get: "arr_get ?args i = last_write ?ws i" for i
    by (rule arr_get_from_empty)
  have cus: "\<exists>k < length (customDecorators m).
      cd_index (customDecorators m ! k) = i \<and> arr_get ?args i = Some (Val (vs ! k))"
    if "i \<in> cd_index ` set (customDecorators m)" for i
  proof -
    from last_write_custom [OF len that] obtain k where k: "k < length (customDecorators m)"
      "cd_index (customDecorators m ! k) = i"
      "last_write (custom_writes (customDecorators m) vs) i = Some (Val (vs ! k))"
      by blast
    from k(3) have "last_write ?ws i = Some (Val (vs ! k))"
      by (simp add: binding_writes_def last_write_append)
    with k(1,2) show ?thesis by (auto simp: get)
  qed
  have "getParameters m c = Inr ?args"
    using ret by (rule getParameters_writes)
  with get cus show "\<exists>args. getParameters m c = Inr args
       \<and> (\<forall>i. arr_get args i = last_write (binding_writes m c vs) i)
       \<and> (\<forall>i \<in> cd_index ` set (customDecorators m).
             \<exists>k < length (customDecorators m).
               cd_index (customDecorators m ! k) = i \<and> arr_get args i = Some (Val (vs ! k)))"
    by blast
next
  show "customDecorators (route_entry props reg)
      = or_empty (md_customDecorators reg (hid (props_handler props)))"
    by (simp add: route_entry_def Let_def)
next
  show "or_empty (md_customDecorators (registry (declare_method target md w)) (hid (decl_handler md)))
         = or_empty (md_customDecorators (registry w) (hid (decl_handler md)))
           @ rev (declared_extractors md)"
    by (rule customs_declare_method)
qed

theorem getParameters_writes_in_application_order_witness:
  "all_return (customDecorators bindings_all_at_0) sample_context [JNum 7, JNum 8]
   \<and> getParameters bindings_all_at_0 sample_context = Inr [Some (Val (JNum 8))]
   \<and> last_write (binding_writes bindings_all_at_0 sample_context [JNum 7, JNum 8]) 0
       = Some (Val (JNum 8))
   \<and> map (\<lambda>x. cd_handler x sample_context)
       (or_empty (md_customDecorators
          (registry (declare_method ExtractorController (hd (decl_methods extractor_declaration))
             empty_world))
          (hid first_argument)))
       = [Inr (JNum 8), Inr (JNum 7)]"
proof -
  have sel: "rawContext bindings_all_at_0 = Some 0" "bodySchema bindings_all_at_0 = Some (None, 0)"
    "querySchema bindings_all_at_0 = Some (None, 0)" "paramSlug bindings_all_at_0 = Some (''id'', 0)"
    "customDecorators bindings_all_at_0 = [sample_extractor (JNum 7) 0, sample_extractor (JNum 8) 0]"
    by (simp_all add: bindings_all_at_0_def)
  have r: "all_return (customDecorators bindings_all_at_0) sample_context [JNum 7, JNum 8]"
    by (simp add: all_return_def sel sample_extractor_def)
  have e: "getParameters bindings_all_at_0 sample_context = Inr [Some (Val (JNum 8))]"
    unfolding getParameters_writes [OF r]
    by (simp add: binding_writes_def fixed_writes_def custom_writes_def sel sample_extractor_def
        arr_set_def)
  let ?md = "hd (decl_methods extractor_declaration)"
  have md: "decl_handler ?md = first_argument"
    "declared_extractors ?md
       = [\<lparr>cd_handler = (\<lambda>c. Inr (JNum 7)), cd_index = 0\<rparr>,
          \<lparr>cd_handler = (\<lambda>c. Inr (JNum 8)), cd_index = 0\<rparr>]"
    by (simp_all add: extractor_declaration_def declared_extractors_def List.map_filter_simps)
  have none: "md_customDecorators (registry empty_world) (hid first_argument) = None"
    by (simp add: empty_world_def empty_registry_def)
  note t = getParameters_writes_in_application_order
    [OF r, of undefined undefined ExtractorController ?md empty_world]
  from t obtain args where a: "getParameters bindings_all_at_0 sample_context = Inr args"
    and l: "\<And>i. arr_get args i
         = last_write (binding_writes bindings_all_at_0 sample_context [JNum 7, JNum 8]) i"
    by blast
  from a e have "args = [Some (Val (JNum 8))]"
    by simp
  with l [of 0] have lw: "last_write (binding_writes bindings_all_at_0 sample_context [JNum 7, JNum 8]) 0
       = Some (Val (JNum 8))"
    by (simp add: arr_get_def)
  from t have "or_empty (md_customDecorators
          (registry (declare_method ExtractorController ?md empty_world)) (hid (decl_handler ?md)))
      = or_empty (md_customDecorators (registry empty_world) (hid (decl_handler ?md)))
        @ rev (declared_extractors ?md)"
    by blast
  then have ord: "map (\<lambda>x. cd_handler x sample_context)
       (or_empty (md_customDecorators
          (registry (declare_method ExtractorController ?md empty_world)) (hid first_argument)))
       = [Inr (JNum 8), Inr (JNum 7)]"
    by (simp add: md none or_empty_def)
  from r e lw ord show ?thesis
    by (intro conjI)
qed

section \<open>One key for routes and socket hooks, and inherited metadata\<close>

lemma socket_hook_and_route_throw:
  "registered (run_program [mixed_declaration, module_declaration [MixedController]]
      AppModule None empty_app empty_world)
     = Inl (UncaughtTypeError ''metadata.push is not a function'')"
  by code_simp

lemma subclass_shares_the_route_array:
  "registered (run_program [base_declaration, sub_declaration,
        module_declaration [BaseController, SubController]]
      AppModule None empty_app empty_world)
     = Inr [(''get'', ''/one/base''), (''get'', ''/one/sub''),
            (''get'', ''/two/base''), (''get'', ''/two/sub'')]"
  by code_simp

lemma sample_program:
  "registered (run_program [sample_declaration, module_declaration [UserController]]
      AppModule sample_options empty_app empty_world)
     = Inr [(''get'', ''/users/a''), (''post'', ''/users/b'')]"
  by code_simp

end
